theory Spec2Isabelle
  imports Main
begin

section \<open>Data model\<close>

text \<open>
  Errors thrown by the service layer become values.  \<open>Error msg\<close> is a plain
  JavaScript \<open>Error\<close> with its message, \<open>TypeError\<close> is what reading a property of
  \<open>undefined\<close> throws, \<open>RecordNotFound\<close> is the store rejecting an update or a
  delete of a row that is not there.
\<close>

datatype error =
    Error string
  | ResourceNotFoundError string string
  | InvalidInputError string
  | DatabaseError string
  | ValidationError
  | TypeError
  | RecordNotFound

text \<open>
  A date field is either a \<open>Date\<close> object or the string that JSON serialisation makes
  of it; both carry the instant in milliseconds.
\<close>

datatype date_field = DateObj int | DateString int

text \<open>Attribute values of a person are strings or numbers.\<close>

datatype attr_value = AStr string | ANum int

fun truthy :: "attr_value \<Rightarrow> bool" where
  "truthy (AStr s) = (s \<noteq> [])"
| "truthy (ANum n) = (n \<noteq> 0)"

record 'f segment =
  segment_id :: string
  isPrivate :: bool
  filters :: 'f
  segment_surveys :: "string list"
  segment_createdAt :: date_field
  segment_updatedAt :: date_field

record 'f survey =
  survey_id :: string
  environmentId :: string
  createdAt :: date_field
  updatedAt :: date_field
  status :: string
  surveyType :: string
  displayOption :: string
  recontactDays :: "int option"
  runOnDate :: "date_field option"
  closeOnDate :: "date_field option"
  triggers :: "string list"
  inlineTriggers :: "string option"
  segment :: "'f segment option"

record display =
  display_surveyId :: string
  display_responseId :: "string option"
  display_createdAt :: int

record person =
  person_id :: string
  person_userId :: "string option"
  attributes :: "(string \<rightharpoonup> attr_value) option"

record product =
  product_recontactDays :: "int option"

record attributeFilter =
  attributeClassName :: string
  operator :: string
  filter_value :: attr_value

record evaluation_context =
  ctx_attributes :: "string \<rightharpoonup> attr_value"
  ctx_actionIds :: "string list"
  ctx_deviceType :: string
  ctx_environmentId :: string
  ctx_personId :: string
  ctx_userId :: attr_value

section \<open>The eligibility pipeline of getSyncSurveys\<close>

text \<open>
  \<open>Array.prototype.filter\<close> with a callback that may throw: the first throw aborts the
  whole filter.
\<close>

fun filterE :: "('a \<Rightarrow> error + bool) \<Rightarrow> 'a list \<Rightarrow> error + 'a list" where
  "filterE p [] = Inr []"
| "filterE p (x # xs) =
     (case p x of
        Inl e \<Rightarrow> Inl e
      | Inr b \<Rightarrow>
          (case filterE p xs of
             Inl e \<Rightarrow> Inl e
           | Inr ys \<Rightarrow> Inr (if b then x # ys else ys)))"

text \<open>Stage one: \<open>survey.status === "inProgress" && survey.type === "web"\<close>.\<close>

definition runningWebSurveys :: "'f survey list \<Rightarrow> 'f survey list" where
  "runningWebSurveys surveys =
     filter (\<lambda>survey. status survey = ''inProgress'' \<and> surveyType survey = ''web'') surveys"

text \<open>Stage two: the callback of the displayOption filter.\<close>

definition displayOptionPasses :: "display list \<Rightarrow> 'f survey \<Rightarrow> error + bool" where
  "displayOptionPasses displays survey =
     (if displayOption survey = ''respondMultiple'' then Inr True
      else if displayOption survey = ''displayOnce'' then
        Inr (length (filter (\<lambda>d. display_surveyId d = survey_id survey) displays) = 0)
      else if displayOption survey = ''displayMultiple'' then
        Inr (length (filter (\<lambda>d. display_surveyId d = survey_id survey
                                  \<and> display_responseId d \<noteq> None) displays) = 0)
      else Inl (Error ''Invalid displayOption''))"

text \<open>
  Stage three: the callback of the recontactDays filter.  \<open>latestDisplay\<close> is
  \<open>displays[0]\<close>, \<open>undefined\<close> on an empty array; \<open>diffInDays\<close> is imported from
  the datetime utilities and is a parameter here, as is the clock \<open>now\<close>.
\<close>

definition recontactPasses ::
  "(int \<Rightarrow> int \<Rightarrow> int) \<Rightarrow> int \<Rightarrow> product \<Rightarrow> display list \<Rightarrow> 'f survey \<Rightarrow> bool" where
  "recontactPasses diffInDays now theProduct displays survey =
     (case displays of
        [] \<Rightarrow> True
      | latestDisplay # _ \<Rightarrow>
          (case recontactDays survey of
             Some days \<Rightarrow>
               (case filter (\<lambda>d. display_surveyId d = survey_id survey) displays of
                  [] \<Rightarrow> True
                | lastDisplaySurvey # _ \<Rightarrow>
                    diffInDays now (display_createdAt lastDisplaySurvey) \<ge> days)
           | None \<Rightarrow>
               (case product_recontactDays theProduct of
                  Some days \<Rightarrow> diffInDays now (display_createdAt latestDisplay) \<ge> days
                | None \<Rightarrow> True)))"

text \<open>
  Stage four, legacy path: one attribute filter against the person.
  \<open>person?.attributes?.[name]\<close> is \<open>undefined\<close> when the person has no attribute
  mapping.  The mapping is a plain object, so a name that is not one of its own keys is
  looked up on \<open>Object.prototype\<close>: the lookup gives the inherited member for the
  names below and \<open>undefined\<close> for every other name.
\<close>

datatype property = Own attr_value | Inherited string

definition objectPrototypeMembers :: "string list" where
  "objectPrototypeMembers =
     [''constructor'', ''hasOwnProperty'', ''isPrototypeOf'', ''propertyIsEnumerable'',
      ''toLocaleString'', ''toString'', ''valueOf'', ''__proto__'', ''__defineGetter__'',
      ''__defineSetter__'', ''__lookupGetter__'', ''__lookupSetter__'']"

definition personAttributeValue :: "person \<Rightarrow> string \<Rightarrow> property option" where
  "personAttributeValue p name =
     (case attributes p of
        None \<Rightarrow> None
      | Some m \<Rightarrow>
          (case m name of
             Some v \<Rightarrow> Some (Own v)
           | None \<Rightarrow> if name \<in> set objectPrototypeMembers then Some (Inherited name) else None))"

text \<open>
  An inherited member is a function or an object: it is truthy and is not \<open>===\<close> to
  any string or number.
\<close>

definition attributeFilterHolds :: "person \<Rightarrow> attributeFilter \<Rightarrow> bool" where
  "attributeFilterHolds p attributeFilter =
     (case personAttributeValue p (attributeClassName attributeFilter) of
        None \<Rightarrow> False
      | Some (Own v) \<Rightarrow>
          if \<not> truthy v then False
          else if operator attributeFilter = ''equals'' then v = filter_value attributeFilter
          else if operator attributeFilter = ''notEquals'' then v \<noteq> filter_value attributeFilter
          else False
      | Some (Inherited _) \<Rightarrow>
          if operator attributeFilter = ''equals'' then False
          else if operator attributeFilter = ''notEquals'' then True
          else False)"

text \<open>
  Stage four for one survey (the body of \<open>surveys.map(async (survey) => ...)\<close>).
  \<open>transformSegmentFiltersToAttributeFilters\<close> and \<open>evaluateSegment\<close> live in the
  segment module and are parameters; \<open>version\<close> is \<open>options?.version\<close>, legacy when
  absent or empty.  The result \<open>Inr None\<close> is the \<open>null\<close> that the final filter drops.
\<close>

definition evaluateSurveySegment ::
  "('f \<Rightarrow> attributeFilter list option) \<Rightarrow> (evaluation_context \<Rightarrow> 'f \<Rightarrow> error + bool) \<Rightarrow>
   string option \<Rightarrow> evaluation_context \<Rightarrow> person \<Rightarrow> 'f survey \<Rightarrow> error + 'f survey option" where
  "evaluateSurveySegment transformSegmentFiltersToAttributeFilters evaluateSegment version ctx p survey =
     (case segment survey of
        None \<Rightarrow> Inr (Some survey)
      | Some seg \<Rightarrow>
          if version = None \<or> version = Some [] then
            (case transformSegmentFiltersToAttributeFilters (filters seg) of
               None \<Rightarrow> Inr None
             | Some attributeFilters \<Rightarrow>
                 if length attributeFilters = 0 then Inr (Some survey)
                 else if list_all (attributeFilterHolds p) attributeFilters then Inr (Some survey)
                 else Inr None)
          else
            (case evaluateSegment ctx (filters seg) of
               Inl e \<Rightarrow> Inl e
             | Inr result \<Rightarrow> Inr (if result then Some survey else None)))"

text \<open>\<open>Promise.all\<close> over the mapped surveys, then \<open>filter((survey) => !!survey)\<close>.\<close>

fun resolveSurveys :: "('a \<Rightarrow> error + 'a option) \<Rightarrow> 'a list \<Rightarrow> error + 'a list" where
  "resolveSurveys f [] = Inr []"
| "resolveSurveys f (x # xs) =
     (case f x of
        Inl e \<Rightarrow> Inl e
      | Inr r \<Rightarrow>
          (case resolveSurveys f xs of
             Inl e \<Rightarrow> Inl e
           | Inr ys \<Rightarrow> Inr (case r of None \<Rightarrow> ys | Some y \<Rightarrow> y # ys)))"

text \<open>Errors propagate through a sequence of awaited calls.\<close>

definition bindE :: "error + 'a \<Rightarrow> ('a \<Rightarrow> error + 'b) \<Rightarrow> error + 'b" where
  "bindE r f = (case r of Inl e \<Rightarrow> Inl e | Inr x \<Rightarrow> f x)"

text \<open>
  The collaborators of getSyncSurveys that live in other modules (product, person,
  display, action and segment services, the datetime helper, the survey utilities) are
  parameters, collected in one record.  An action carries the id of its action class, if
  any.
\<close>

record action =
  action_actionClassId :: "string option"

record 'f sync_deps =
  getProductByEnvironmentId :: "string \<Rightarrow> error + product option"
  getPerson :: "string \<Rightarrow> error + person option"
  getDisplaysByPersonId :: "string \<Rightarrow> error + display list"
  getActionsByPersonId :: "string \<Rightarrow> error + action list"
  anySurveyHasFilters :: "'f survey list \<Rightarrow> bool"
  transformSegmentFiltersToAttributeFilters :: "'f \<Rightarrow> attributeFilter list option"
  evaluateSegment :: "evaluation_context \<Rightarrow> 'f \<Rightarrow> error + bool"
  diffInDays :: "int \<Rightarrow> int \<Rightarrow> int"

text \<open>\<open>Array.from(new Set(xs))\<close> keeps the first occurrence of each element.\<close>

definition uniqueInOrder :: "'a list \<Rightarrow> 'a list" where
  "uniqueInOrder xs = rev (remdups (rev xs))"

definition personUserId :: "person \<Rightarrow> attr_value" where
  "personUserId p =
     (case person_userId p of
        Some u \<Rightarrow> AStr u
      | None \<Rightarrow>
          (case attributes p of
             None \<Rightarrow> AStr []
           | Some m \<Rightarrow> (case m ''userId'' of Some v \<Rightarrow> v | None \<Rightarrow> AStr [])))"

text \<open>
  The body of the cached callback of getSyncSurveys from the point where the product,
  the person and the surveys of the environment are known.
\<close>

definition eligibleSurveys ::
  "'f sync_deps \<Rightarrow> int \<Rightarrow> string \<Rightarrow> string \<Rightarrow> string option \<Rightarrow> product \<Rightarrow> person \<Rightarrow>
   'f survey list \<Rightarrow> error + 'f survey list" where
  "eligibleSurveys deps now envId deviceType version theProduct p surveys0 =
     (let surveys1 = runningWebSurveys surveys0 in
      if length surveys1 = 0 then Inr []
      else
        bindE (getDisplaysByPersonId deps (person_id p)) (\<lambda>displays.
        bindE (filterE (displayOptionPasses displays) surveys1) (\<lambda>surveys2.
          let surveys3 = filter (recontactPasses (diffInDays deps) now theProduct displays) surveys2 in
          if length surveys3 = 0 then Inr []
          else if \<not> anySurveyHasFilters deps surveys3 then Inr surveys3
          else
            bindE (getActionsByPersonId deps (person_id p)) (\<lambda>personActions.
              let personActionClassIds =
                    uniqueInOrder
                      (map (\<lambda>a. case action_actionClassId a of None \<Rightarrow> [] | Some i \<Rightarrow> i) personActions);
                  ctx = \<lparr> ctx_attributes = (case attributes p of None \<Rightarrow> Map.empty | Some m \<Rightarrow> m),
                          ctx_actionIds = personActionClassIds,
                          ctx_deviceType = deviceType,
                          ctx_environmentId = envId,
                          ctx_personId = person_id p,
                          ctx_userId = personUserId p \<rparr>
              in resolveSurveys
                   (evaluateSurveySegment (transformSegmentFiltersToAttributeFilters deps)
                      (evaluateSegment deps) version ctx p)
                   surveys3))))"

section \<open>The derived-result cache\<close>

text \<open>
  \<open>unstable_cache(cb, keyParts, options)()\<close> of the framework: a hit returns the stored
  entry without running the callback; a miss runs the callback, stores the JSON form of
  its result under the key and returns the result; a callback that throws stores
  nothing.  The callback may itself read through the cache, so it takes the entries and
  returns them; a call made inside another cached callback (\<open>nested\<close>) does not read
  its entry: it runs its callback and stores the result.  Expiry and invalidation by tag
  remove entries and are not part of this model: a removed entry is a miss.
\<close>

definition unstable_cache ::
  "bool \<Rightarrow> ('v \<Rightarrow> 'v) \<Rightarrow> ((string \<rightharpoonup> 'v) \<Rightarrow> (error + 'v) \<times> (string \<rightharpoonup> 'v)) \<Rightarrow>
   string \<Rightarrow> (string \<rightharpoonup> 'v) \<Rightarrow> (error + 'v) \<times> (string \<rightharpoonup> 'v)" where
  "unstable_cache nested json cb key entries =
     (case (if nested then None else entries key) of
        Some v \<Rightarrow> (Inr v, entries)
      | None \<Rightarrow>
          (case cb entries of
             (Inl e, entries') \<Rightarrow> (Inl e, entries')
           | (Inr v, entries') \<Rightarrow> (Inr v, entries'(key \<mapsto> json v))))"

text \<open>What \<open>JSON.parse(JSON.stringify(v))\<close> does to the date fields of a survey.\<close>

fun jsonDate :: "date_field \<Rightarrow> date_field" where
  "jsonDate (DateObj t) = DateString t"
| "jsonDate (DateString t) = DateString t"

definition jsonSegment :: "'f segment \<Rightarrow> 'f segment" where
  "jsonSegment seg =
     seg \<lparr> segment_createdAt := jsonDate (segment_createdAt seg),
           segment_updatedAt := jsonDate (segment_updatedAt seg) \<rparr>"

definition jsonSurvey :: "'f survey \<Rightarrow> 'f survey" where
  "jsonSurvey s =
     s \<lparr> createdAt := jsonDate (createdAt s),
         updatedAt := jsonDate (updatedAt s),
         runOnDate := map_option jsonDate (runOnDate s),
         closeOnDate := map_option jsonDate (closeOnDate s),
         segment := map_option jsonSegment (segment s) \<rparr>"

text \<open>
  Modelled from the spec: \<open>formatSurveyDateFields\<close> of the survey utilities is not
  among the sources.  The spec asks that values be restored to the shape that was
  cached, "including date/time fields that a naive serialization round-trip would
  otherwise degrade to strings": every date field that is a string becomes a
  \<open>Date\<close> again.
\<close>

fun restoreDate :: "date_field \<Rightarrow> date_field" where
  "restoreDate (DateString t) = DateObj t"
| "restoreDate (DateObj t) = DateObj t"

definition formatSegmentDateFields :: "'f segment \<Rightarrow> 'f segment" where
  "formatSegmentDateFields seg =
     seg \<lparr> segment_createdAt := restoreDate (segment_createdAt seg),
           segment_updatedAt := restoreDate (segment_updatedAt seg) \<rparr>"

definition formatSurveyDateFields :: "'f survey \<Rightarrow> 'f survey" where
  "formatSurveyDateFields s =
     s \<lparr> createdAt := restoreDate (createdAt s),
         updatedAt := restoreDate (updatedAt s),
         runOnDate := map_option restoreDate (runOnDate s),
         closeOnDate := map_option restoreDate (closeOnDate s),
         segment := map_option formatSegmentDateFields (segment s) \<rparr>"

text \<open>A survey value whose date fields all have their typed shape.\<close>

fun isDate :: "date_field \<Rightarrow> bool" where
  "isDate (DateObj _) = True"
| "isDate (DateString _) = False"

definition optDate :: "date_field option \<Rightarrow> bool" where
  "optDate d = (case d of None \<Rightarrow> True | Some x \<Rightarrow> isDate x)"

definition datesTyped :: "'f survey \<Rightarrow> bool" where
  "datesTyped s \<longleftrightarrow>
     isDate (createdAt s) \<and> isDate (updatedAt s) \<and> optDate (runOnDate s) \<and>
     optDate (closeOnDate s) \<and>
     (case segment s of
        None \<Rightarrow> True
      | Some seg \<Rightarrow> isDate (segment_createdAt seg) \<and> isDate (segment_updatedAt seg))"

section \<open>The cached reads of the survey service\<close>

text \<open>
  The store queries are parameters: each gives the rows the query selects, already in
  the shape the callback builds from them (trigger names, ids of the segment's
  surveys), or the store's error.  \<open>ZId\<close> is the id schema that \<open>validateInputs\<close>
  checks; numbers in cache keys are rendered by \<open>showNumber\<close>.
\<close>

record ('f, 'c) read_deps =
  ZId :: "string \<Rightarrow> bool"
  findUniqueSurvey :: "string \<Rightarrow> error + 'f survey option"
  findManyByActionClassId :: "string \<Rightarrow> nat option \<Rightarrow> error + 'f survey list"
  findManyByEnvironmentId :: "string \<Rightarrow> nat option \<Rightarrow> nat option \<Rightarrow> 'c option \<Rightarrow> error + 'f survey list"
  findManyBySegmentId :: "string \<Rightarrow> error + 'f survey list"
  stringifyCriteria :: "'c option \<Rightarrow> string"
  showNumber :: "nat option \<Rightarrow> string"

text \<open>The two families of entries: single surveys and survey lists.\<close>

record 'f cache =
  surveyEntries :: "string \<rightharpoonup> 'f survey option"
  surveysEntries :: "string \<rightharpoonup> 'f survey list"

definition validateInputs :: "bool list \<Rightarrow> error + unit" where
  "validateInputs checks = (if list_all (\<lambda>ok. ok) checks then Inr () else Inl ValidationError)"

definition getSurvey ::
  "('f, 'c) read_deps \<Rightarrow> string \<Rightarrow> 'f cache \<Rightarrow> (error + 'f survey option) \<times> 'f cache" where
  "getSurvey deps surveyId cache =
     (let (survey, entries) =
            unstable_cache False (map_option jsonSurvey)
              (\<lambda>entries.
                 (bindE (validateInputs [ZId deps surveyId]) (\<lambda>_. findUniqueSurvey deps surveyId),
                  entries))
              (''getSurvey-'' @ surveyId)
              (surveyEntries cache)
      in (case survey of
            Inl e \<Rightarrow> Inl e
          | Inr r \<Rightarrow> Inr (case r of Some s \<Rightarrow> Some (formatSurveyDateFields s) | None \<Rightarrow> None),
          cache \<lparr> surveyEntries := entries \<rparr>))"

definition getSurveysByActionClassId ::
  "('f, 'c) read_deps \<Rightarrow> string \<Rightarrow> nat option \<Rightarrow> 'f cache \<Rightarrow> (error + 'f survey list) \<times> 'f cache" where
  "getSurveysByActionClassId deps actionClassId page cache =
     (let (surveys, entries) =
            unstable_cache False (map jsonSurvey)
              (\<lambda>entries.
                 (bindE (validateInputs [ZId deps actionClassId])
                    (\<lambda>_. findManyByActionClassId deps actionClassId page),
                  entries))
              (''getSurveysByActionClassId-'' @ actionClassId @ ''-'' @ showNumber deps page)
              (surveysEntries cache)
      in (case surveys of
            Inl e \<Rightarrow> Inl e
          | Inr r \<Rightarrow> Inr (map formatSurveyDateFields r),
          cache \<lparr> surveysEntries := entries \<rparr>))"

text \<open>
  getSurveys is called by the request layer and, nested, by the callback of
  getSyncSurveys; \<open>nested\<close> says which.
\<close>

definition getSurveys ::
  "bool \<Rightarrow> ('f, 'c) read_deps \<Rightarrow> string \<Rightarrow> nat option \<Rightarrow> nat option \<Rightarrow> 'c option \<Rightarrow>
   'f cache \<Rightarrow> (error + 'f survey list) \<times> 'f cache" where
  "getSurveys nested deps envId limit offset filterCriteria cache =
     (let (surveys, entries) =
            unstable_cache nested (map jsonSurvey)
              (\<lambda>entries.
                 (bindE (validateInputs [ZId deps envId])
                    (\<lambda>_. findManyByEnvironmentId deps envId limit offset filterCriteria),
                  entries))
              (''getSurveys-'' @ envId @ ''-'' @ showNumber deps limit @ ''-'' @ showNumber deps offset
                 @ ''-'' @ stringifyCriteria deps filterCriteria)
              (surveysEntries cache)
      in (case surveys of
            Inl e \<Rightarrow> Inl e
          | Inr r \<Rightarrow> Inr (map formatSurveyDateFields r),
          cache \<lparr> surveysEntries := entries \<rparr>))"

text \<open>getSurveysBySegmentId returns what the cache gives it.\<close>

definition getSurveysBySegmentId ::
  "('f, 'c) read_deps \<Rightarrow> string \<Rightarrow> 'f cache \<Rightarrow> (error + 'f survey list) \<times> 'f cache" where
  "getSurveysBySegmentId deps segmentId cache =
     (let (surveys, entries) =
            unstable_cache False (map jsonSurvey)
              (\<lambda>entries. (findManyBySegmentId deps segmentId, entries))
              (''getSurveysBySegmentId-'' @ segmentId)
              (surveysEntries cache)
      in (surveys, cache \<lparr> surveysEntries := entries \<rparr>))"

text \<open>
  getSyncSurveys: the id is validated, then the cached callback looks up the product and
  the person, reads the environment's surveys through getSurveys (and so through the
  cache) and runs the eligibility pipeline; the result is mapped through
  \<open>formatSurveyDateFields\<close>.
\<close>

definition getSyncSurveys ::
  "('f, 'c) read_deps \<Rightarrow> 'f sync_deps \<Rightarrow> int \<Rightarrow> string \<Rightarrow> string \<Rightarrow> string \<Rightarrow> string option \<Rightarrow>
   'f cache \<Rightarrow> (error + 'f survey list) \<times> 'f cache" where
  "getSyncSurveys deps sdeps now envId personId deviceType version cache =
     (case validateInputs [ZId deps envId] of
        Inl e \<Rightarrow> (Inl e, cache)
      | Inr _ \<Rightarrow>
          (let (surveys, entries) =
                 unstable_cache False (map jsonSurvey)
                   (\<lambda>entries.
                      case getProductByEnvironmentId sdeps envId of
                        Inl e \<Rightarrow> (Inl e, entries)
                      | Inr None \<Rightarrow> (Inl (Error ''Product not found''), entries)
                      | Inr (Some theProduct) \<Rightarrow>
                          (case (if personId = ''legacy''
                                 then Inr (Some \<lparr> person_id = ''legacy'', person_userId = None,
                                                  attributes = None \<rparr>)
                                 else getPerson sdeps personId) of
                             Inl e \<Rightarrow> (Inl e, entries)
                           | Inr None \<Rightarrow> (Inl (Error ''Person not found''), entries)
                           | Inr (Some p) \<Rightarrow>
                               (case getSurveys True deps envId None None None
                                       (cache \<lparr> surveysEntries := entries \<rparr>) of
                                  (Inl e, cache') \<Rightarrow> (Inl e, surveysEntries cache')
                                | (Inr surveys0, cache') \<Rightarrow>
                                    (eligibleSurveys sdeps now envId deviceType version theProduct p
                                       surveys0,
                                     surveysEntries cache'))))
                   (''getSyncSurveys-'' @ envId @ ''-'' @ personId)
                   (surveysEntries cache)
           in (case surveys of
                 Inl e \<Rightarrow> Inl e
               | Inr r \<Rightarrow> Inr (map formatSurveyDateFields r),
               cache \<lparr> surveysEntries := entries \<rparr>)))"

section \<open>Trigger updates\<close>

record actionClass =
  actionClass_id :: string
  actionClass_name :: string

text \<open>
  \<open>actionClasses.find(...)!.id\<close>: the non-null assertion is erased at run time, so a
  name with no action class reads \<open>id\<close> of \<open>undefined\<close> and throws a TypeError.
\<close>

definition getActionClassIdFromName :: "actionClass list \<Rightarrow> string \<Rightarrow> error + string" where
  "getActionClassIdFromName actionClasses actionClassName =
     (case find (\<lambda>ac. actionClass_name ac = actionClassName) actionClasses of
        None \<Rightarrow> Inl TypeError
      | Some ac \<Rightarrow> Inr (actionClass_id ac))"

fun mapE :: "('a \<Rightarrow> error + 'b) \<Rightarrow> 'a list \<Rightarrow> error + 'b list" where
  "mapE f [] = Inr []"
| "mapE f (x # xs) =
     (case f x of
        Inl e \<Rightarrow> Inl e
      | Inr y \<Rightarrow> (case mapE f xs of Inl e \<Rightarrow> Inl e | Inr ys \<Rightarrow> Inr (y # ys)))"

text \<open>The tag invalidation itself is outside the model; the lookup that may throw is not.\<close>

definition revalidateSurveyByActionClassName :: "actionClass list \<Rightarrow> string list \<Rightarrow> error + unit" where
  "revalidateSurveyByActionClassName actionClasses actionClassNames =
     bindE (mapE (getActionClassIdFromName actionClasses) actionClassNames) (\<lambda>_. Inr ())"

record triggerUpdate =
  create :: "string list option"
  deleteMany :: "string list option"

definition processTriggerUpdates ::
  "string list \<Rightarrow> string list \<Rightarrow> actionClass list \<Rightarrow> error + triggerUpdate" where
  "processTriggerUpdates newNames currentSurveyTriggers actionClasses =
     (let newTriggers = filter (\<lambda>t. \<not> (t = [] \<or> t \<in> set currentSurveyTriggers)) newNames;
          removedTriggers = filter (\<lambda>t. t \<notin> set newNames) currentSurveyTriggers
      in
        bindE (if length newTriggers > 0
               then bindE (mapE (getActionClassIdFromName actionClasses) newTriggers)
                      (\<lambda>ids. Inr (Some ids))
               else Inr None) (\<lambda>created.
        bindE (if length removedTriggers > 0
               then bindE (mapE (getActionClassIdFromName actionClasses) removedTriggers)
                      (\<lambda>ids. Inr (Some ids))
               else Inr None) (\<lambda>deleted.
        bindE (revalidateSurveyByActionClassName actionClasses (newTriggers @ removedTriggers))
          (\<lambda>_. Inr \<lparr> create = created, deleteMany = deleted \<rparr>))))"

section \<open>updateSurvey and createSurvey\<close>

text \<open>
  The object handed to \<open>prisma.survey.update\<close>: the fields of the updated survey other
  than triggers, environment, segment, languages and questions, and the trigger update.
  Languages and questions are not part of this model.
\<close>

record survey_data =
  data_id :: string
  data_createdAt :: date_field
  data_updatedAt :: date_field
  data_status :: string
  data_surveyType :: string
  data_displayOption :: string
  data_recontactDays :: "int option"
  data_runOnDate :: "date_field option"
  data_closeOnDate :: "date_field option"
  data_inlineTriggers :: "string option"
  data_triggers :: "triggerUpdate option"

text \<open>The body of a createSurvey call and the object handed to \<open>prisma.survey.create\<close>.\<close>

record surveyInput =
  input_name :: string
  input_surveyType :: "string option"
  input_status :: "string option"
  input_displayOption :: "string option"
  input_recontactDays :: "int option"
  input_triggers :: "string list option"
  input_inlineTriggers :: "string option"
  input_createdBy :: "string option"

record survey_create_data =
  create_body :: surveyInput
  create_triggers :: "triggerUpdate option"
  create_creator :: "string option"
  create_environment :: string

text \<open>
  The collaborators of the two writes: the schemas, the action-class and segment
  services, the current survey as getSurvey returns it, the store's update and create
  (each gives the selected row or the error the call ends with), and the team service.
\<close>

record 'f write_deps =
  isZId :: "string \<Rightarrow> bool"
  ZSurveyWithRefinements :: "'f survey \<Rightarrow> bool"
  getActionClasses :: "string \<Rightarrow> error + actionClass list"
  currentSurveyById :: "string \<Rightarrow> error + 'f survey option"
  safeParseSegmentFilters :: "'f \<Rightarrow> bool"
  updateSegment :: "string \<Rightarrow> 'f segment \<Rightarrow> error + unit"
  prismaSurveyUpdate :: "string \<Rightarrow> survey_data \<Rightarrow> error + 'f survey"
  prismaSurveyCreate :: "survey_create_data \<Rightarrow> error + 'f survey"
  subscribeTeamMembersToSurveyResponses :: "string \<Rightarrow> string \<Rightarrow> error + unit"

text \<open>
  \<open>data.runOnDate > new Date()\<close>: a \<open>Date\<close> compares by its instant; a string against
  a \<open>Date\<close> compares as NaN and is false.
\<close>

fun laterThan :: "date_field \<Rightarrow> int \<Rightarrow> bool" where
  "laterThan (DateObj t) now = (t > now)"
| "laterThan (DateString _) now = False"

text \<open>updateSurvey up to the store call: the \<open>data\<close> object it builds.\<close>

definition updateSurveyData :: "'f write_deps \<Rightarrow> int \<Rightarrow> 'f survey \<Rightarrow> error + survey_data" where
  "updateSurveyData deps now updatedSurvey =
     bindE (validateInputs [ZSurveyWithRefinements deps updatedSurvey]) (\<lambda>_.
     bindE (getActionClasses deps (environmentId updatedSurvey)) (\<lambda>actionClasses.
     bindE (currentSurveyById deps (survey_id updatedSurvey)) (\<lambda>current.
       case current of
         None \<Rightarrow> Inl (ResourceNotFoundError ''Survey'' (survey_id updatedSurvey))
       | Some currentSurvey \<Rightarrow>
           bindE (processTriggerUpdates (triggers updatedSurvey) (triggers currentSurvey) actionClasses)
             (\<lambda>triggersUpdate.
           bindE (case segment updatedSurvey of
                    None \<Rightarrow> Inr ()
                  | Some seg \<Rightarrow>
                      if \<not> safeParseSegmentFilters deps (filters seg)
                      then Inl (InvalidInputError ''Invalid user segment filters'')
                      else (case updateSegment deps (segment_id seg) seg of
                              Inl _ \<Rightarrow> Inl (Error ''Error updating survey'')
                            | Inr _ \<Rightarrow> Inr ())) (\<lambda>_.
             let status1 =
                   (if status updatedSurvey = ''scheduled'' \<and> runOnDate updatedSurvey = None
                    then ''inProgress'' else status updatedSurvey);
                 status2 =
                   (if (status1 = ''completed'' \<or> status1 = ''paused'' \<or> status1 = ''inProgress'')
                       \<and> (case runOnDate updatedSurvey of
                             None \<Rightarrow> False
                           | Some d \<Rightarrow> laterThan d now)
                    then ''scheduled'' else status1)
             in Inr \<lparr> data_id = survey_id updatedSurvey,
                      data_createdAt = createdAt updatedSurvey,
                      data_updatedAt = updatedAt updatedSurvey,
                      data_status = status2,
                      data_surveyType = surveyType updatedSurvey,
                      data_displayOption = displayOption updatedSurvey,
                      data_recontactDays = recontactDays updatedSurvey,
                      data_runOnDate = runOnDate updatedSurvey,
                      data_closeOnDate = closeOnDate updatedSurvey,
                      data_inlineTriggers = inlineTriggers updatedSurvey,
                      data_triggers = Some triggersUpdate \<rparr>)))))"

definition updateSurvey :: "'f write_deps \<Rightarrow> int \<Rightarrow> 'f survey \<Rightarrow> error + 'f survey" where
  "updateSurvey deps now updatedSurvey =
     bindE (updateSurveyData deps now updatedSurvey) (\<lambda>data.
     bindE (prismaSurveyUpdate deps (survey_id updatedSurvey) data) (\<lambda>prismaSurvey.
       Inr (prismaSurvey \<lparr> triggers := triggers updatedSurvey \<rparr>)))"

definition createSurvey :: "'f write_deps \<Rightarrow> string \<Rightarrow> surveyInput \<Rightarrow> error + 'f survey" where
  "createSurvey deps envId surveyBody =
     bindE (validateInputs [isZId deps envId]) (\<lambda>_.
       if input_triggers surveyBody \<noteq> None \<and> input_inlineTriggers surveyBody \<noteq> None
       then Inl (InvalidInputError ''Survey body cannot have both triggers and inlineTriggers'')
       else
         bindE (case input_triggers surveyBody of
                  None \<Rightarrow> Inr ()
                | Some names \<Rightarrow>
                    bindE (getActionClasses deps envId) (\<lambda>actionClasses.
                      revalidateSurveyByActionClassName actionClasses names)) (\<lambda>_.
         bindE (case input_triggers surveyBody of
                  None \<Rightarrow> Inr None
                | Some names \<Rightarrow>
                    bindE (getActionClasses deps envId) (\<lambda>actionClasses.
                    bindE (processTriggerUpdates names [] actionClasses) (\<lambda>u. Inr (Some u))))
           (\<lambda>triggersUpdate.
         bindE (prismaSurveyCreate deps
                  \<lparr> create_body = surveyBody \<lparr> input_createdBy := None \<rparr>,
                    create_triggers = triggersUpdate,
                    create_creator = input_createdBy surveyBody,
                    create_environment = envId \<rparr>) (\<lambda>survey.
           let transformedSurvey = survey \<lparr> segment := None \<rparr> in
           bindE (subscribeTeamMembersToSurveyResponses deps envId (survey_id survey)) (\<lambda>_.
             Inr transformedSurvey)))))"

section \<open>canUserModifyResponseNote\<close>

record responseNote =
  note_id :: string
  note_user_id :: string

text \<open>
  \<open>getResponseNote\<close> of the response-note service is a parameter: the note, \<open>null\<close>
  when there is none, or the error it throws.  The result is memoised under a key made
  of both ids.
\<close>

definition canUserModifyResponseNote ::
  "(string \<Rightarrow> bool) \<Rightarrow> (string \<Rightarrow> error + responseNote option) \<Rightarrow> string \<Rightarrow> string \<Rightarrow>
   (string \<rightharpoonup> bool) \<Rightarrow> (error + bool) \<times> (string \<rightharpoonup> bool)" where
  "canUserModifyResponseNote zid getResponseNote userId responseNoteId entries =
     unstable_cache False (\<lambda>b. b)
       (\<lambda>entries.
          (bindE (validateInputs [zid userId, zid responseNoteId]) (\<lambda>_.
             if userId = [] \<or> responseNoteId = [] then Inr False
             else
               bindE (getResponseNote responseNoteId) (\<lambda>responseNote.
                 case responseNote of
                   None \<Rightarrow> Inr False
                 | Some note \<Rightarrow> Inr (note_user_id note = userId))),
           entries))
       (''canUserModifyResponseNote-'' @ userId @ ''-'' @ responseNoteId)
       entries"

section \<open>The migration of "web" surveys\<close>

text \<open>
  The rows the migration touches.  The tables are lists in the order the store returns
  them.
\<close>

record surveyRow =
  row_id :: string
  row_type :: string
  row_segmentId :: "string option"

record segmentRow =
  segRow_id :: string
  segRow_title :: string
  segRow_isPrivate :: bool

record responseRow =
  response_surveyId :: string
  response_personId :: "string option"
  response_createdAt :: int

record database =
  db_surveys :: "surveyRow list"
  db_segments :: "segmentRow list"
  db_responses :: "responseRow list"

text \<open>
  \<open>tx.response.findFirst({ where: { surveyId }, orderBy: { createdAt: "desc" } })\<close>:
  a response of the survey with the greatest creation time, the earliest row among equals.
\<close>

fun newest :: "responseRow list \<Rightarrow> responseRow option" where
  "newest [] = None"
| "newest (r # rs) =
     (case newest rs of
        None \<Rightarrow> Some r
      | Some r' \<Rightarrow> if response_createdAt r' > response_createdAt r then Some r' else Some r)"

definition response_findFirst :: "database \<Rightarrow> string \<Rightarrow> responseRow option" where
  "response_findFirst db surveyId =
     newest (filter (\<lambda>r. response_surveyId r = surveyId) (db_responses db))"

text \<open>\<open>latestResponse?.personId\<close> as a condition: a response with a non-empty person id.\<close>

definition hasPerson :: "responseRow option \<Rightarrow> bool" where
  "hasPerson latestResponse =
     (case latestResponse of
        None \<Rightarrow> False
      | Some r \<Rightarrow> (case response_personId r of None \<Rightarrow> False | Some pid \<Rightarrow> pid \<noteq> []))"

text \<open>
  \<open>tx.survey.findMany({ where: { type: "web" }, include: { segment: true } })\<close>: each
  web survey with the segment it is connected to at the time of the query.
\<close>

definition survey_findMany_web :: "database \<Rightarrow> (surveyRow \<times> segmentRow option) list" where
  "survey_findMany_web db =
     map (\<lambda>s. (s, case row_segmentId s of
                      None \<Rightarrow> None
                    | Some g \<Rightarrow> find (\<lambda>seg. segRow_id seg = g) (db_segments db)))
       (filter (\<lambda>s. row_type s = ''web'') (db_surveys db))"

text \<open>
  The store's writes.  An update or a delete addressed by id throws when no row has the
  id.  Deleting a segment clears the reference of the surveys connected to it.
\<close>

definition survey_update ::
  "database \<Rightarrow> string \<Rightarrow> (surveyRow \<Rightarrow> surveyRow) \<Rightarrow> error + database" where
  "survey_update db surveyId change =
     (if \<exists>s \<in> set (db_surveys db). row_id s = surveyId
      then Inr (db \<lparr> db_surveys :=
                       map (\<lambda>s. if row_id s = surveyId then change s else s) (db_surveys db) \<rparr>)
      else Inl RecordNotFound)"

definition clearReferences :: "(segmentRow \<Rightarrow> bool) \<Rightarrow> database \<Rightarrow> surveyRow \<Rightarrow> surveyRow" where
  "clearReferences deleted db s =
     (case row_segmentId s of
        None \<Rightarrow> s
      | Some g \<Rightarrow>
          if \<exists>seg \<in> set (db_segments db). segRow_id seg = g \<and> deleted seg
          then s \<lparr> row_segmentId := None \<rparr> else s)"

definition segment_deleteMany :: "database \<Rightarrow> (segmentRow \<Rightarrow> bool) \<Rightarrow> database" where
  "segment_deleteMany db deleted =
     db \<lparr> db_segments := filter (\<lambda>seg. \<not> deleted seg) (db_segments db),
          db_surveys := map (clearReferences deleted db) (db_surveys db) \<rparr>"

definition segment_delete :: "database \<Rightarrow> string \<Rightarrow> error + database" where
  "segment_delete db segmentId =
     (if \<exists>seg \<in> set (db_segments db). segRow_id seg = segmentId
      then Inr (segment_deleteMany db (\<lambda>seg. segRow_id seg = segmentId))
      else Inl RecordNotFound)"

text \<open>One iteration of the loop over the web surveys.\<close>

definition migrateSurvey :: "database \<Rightarrow> surveyRow \<times> segmentRow option \<Rightarrow> error + database" where
  "migrateSurvey db ws =
     (case ws of (webSurvey, webSegment) \<Rightarrow>
        if hasPerson (response_findFirst db (row_id webSurvey)) then
          survey_update db (row_id webSurvey) (\<lambda>s. s \<lparr> row_type := ''app'' \<rparr>)
        else
          bindE (survey_update db (row_id webSurvey) (\<lambda>s. s \<lparr> row_type := ''website'' \<rparr>)) (\<lambda>db1.
          bindE (case webSegment of
                   None \<Rightarrow> Inr db1
                 | Some seg \<Rightarrow>
                     if segRow_isPrivate seg then segment_delete db1 (segRow_id seg)
                     else survey_update db1 (row_id webSurvey) (\<lambda>s. s \<lparr> row_segmentId := None \<rparr>))
            (\<lambda>db2.
              Inr (segment_deleteMany db2
                     (\<lambda>seg. segRow_title seg = row_id webSurvey \<and> segRow_isPrivate seg)))))"

fun migrateAll :: "database \<Rightarrow> (surveyRow \<times> segmentRow option) list \<Rightarrow> error + database" where
  "migrateAll db [] = Inr db"
| "migrateAll db (ws # rest) =
     (case migrateSurvey db ws of Inl e \<Rightarrow> Inl e | Inr db' \<Rightarrow> migrateAll db' rest)"

text \<open>
  \<open>main\<close>: the whole loop runs in one transaction, so an error leaves the store as it
  was and is the outcome.
\<close>

definition main :: "database \<Rightarrow> error + database" where
  "main db = migrateAll db (survey_findMany_web db)"

text \<open>
  A later state of the store descends from an earlier one: the same survey ids in the
  same order, the same responses, no new segment, every survey row still connected as
  before or to nothing, and its type unchanged unless its id is among the touched ones.
\<close>

definition descends :: "string set \<Rightarrow> database \<Rightarrow> database \<Rightarrow> bool" where
  "descends touched d d' \<longleftrightarrow>
     map row_id (db_surveys d') = map row_id (db_surveys d) \<and>
     db_responses d' = db_responses d \<and>
     set (db_segments d') \<subseteq> set (db_segments d) \<and>
     (\<forall>s' \<in> set (db_surveys d').
        \<exists>s \<in> set (db_surveys d).
          row_id s = row_id s' \<and>
          (row_segmentId s' = row_segmentId s \<or> row_segmentId s' = None) \<and>
          (row_id s' \<notin> touched \<longrightarrow> row_type s' = row_type s))"

text \<open>What the migration establishes for one web survey and the segment included with it.\<close>

definition migrated :: "database \<Rightarrow> database \<Rightarrow> surveyRow \<Rightarrow> segmentRow option \<Rightarrow> bool" where
  "migrated db db' w g \<longleftrightarrow>
     (if hasPerson (response_findFirst db (row_id w)) then
        (\<forall>s \<in> set (db_surveys db'). row_id s = row_id w \<longrightarrow> row_type s = ''app'')
      else
        (\<forall>s \<in> set (db_surveys db'). row_id s = row_id w \<longrightarrow> row_type s = ''website'') \<and>
        (case g of
           None \<Rightarrow> True
         | Some seg \<Rightarrow>
             if segRow_isPrivate seg
             then \<forall>x \<in> set (db_segments db'). segRow_id x \<noteq> segRow_id seg
             else \<forall>s \<in> set (db_surveys db'). row_id s = row_id w \<longrightarrow> row_segmentId s = None) \<and>
        (\<forall>x \<in> set (db_segments db'). \<not> (segRow_title x = row_id w \<and> segRow_isPrivate x)))"

text \<open>
  Private segments belong to one survey: a private segment connected to a web survey is
  connected to no other web survey and does not carry another web survey's id as title.
\<close>

definition privateSegmentsOwned :: "database \<Rightarrow> bool" where
  "privateSegmentsOwned db \<longleftrightarrow>
     (\<forall>w1 \<in> set (db_surveys db). \<forall>w2 \<in> set (db_surveys db). \<forall>seg \<in> set (db_segments db).
        row_type w1 = ''web'' \<and> row_type w2 = ''web'' \<and> row_id w1 \<noteq> row_id w2 \<and>
        row_segmentId w2 = Some (segRow_id seg) \<and> segRow_isPrivate seg \<longrightarrow>
          row_segmentId w1 \<noteq> Some (segRow_id seg) \<and> segRow_title seg \<noteq> row_id w1)"

section \<open>Concrete data\<close>

text \<open>A running in-app survey, a running link survey, and two displays of the former.\<close>

definition runningSurvey :: "unit survey" where
  "runningSurvey =
     \<lparr> survey_id = ''s1'', environmentId = ''env1'', createdAt = DateObj 1000,
       updatedAt = DateObj 2000, status = ''inProgress'', surveyType = ''web'',
       displayOption = ''displayOnce'', recontactDays = Some 7, runOnDate = None,
       closeOnDate = None, triggers = [], inlineTriggers = None, segment = None \<rparr>"

definition linkSurvey :: "unit survey" where
  "linkSurvey = runningSurvey \<lparr> survey_id := ''s2'', surveyType := ''link'' \<rparr>"

definition answeredDisplay :: display where
  "answeredDisplay =
     \<lparr> display_surveyId = ''s1'', display_responseId = Some ''r1'', display_createdAt = 10 \<rparr>"

definition unansweredDisplay :: display where
  "unansweredDisplay =
     \<lparr> display_surveyId = ''s1'', display_responseId = None, display_createdAt = 3 \<rparr>"

definition plainDeps :: "unit sync_deps" where
  "plainDeps =
     \<lparr> getProductByEnvironmentId = (\<lambda>_. Inr (Some \<lparr> product_recontactDays = None \<rparr>)),
       getPerson = (\<lambda>_. Inr None),
       getDisplaysByPersonId = (\<lambda>_. Inr []),
       getActionsByPersonId = (\<lambda>_. Inr []),
       anySurveyHasFilters = (\<lambda>_. False),
       transformSegmentFiltersToAttributeFilters = (\<lambda>_. None),
       evaluateSegment = (\<lambda>_ _. Inr True),
       diffInDays = (\<lambda>a b. \<bar>b - a\<bar> div 86400000) \<rparr>"

definition legacyPerson :: person where
  "legacyPerson = \<lparr> person_id = ''legacy'', person_userId = None, attributes = None \<rparr>"

definition invalidOptionSurvey :: "unit survey" where
  "invalidOptionSurvey = runningSurvey \<lparr> survey_id := ''s3'', displayOption := ''always'' \<rparr>"


definition privateSegment :: "unit segment" where
  "privateSegment =
     \<lparr> segment_id = ''seg1'', isPrivate = True, filters = (), segment_surveys = [''s4''],
       segment_createdAt = DateObj 500, segment_updatedAt = DateObj 600 \<rparr>"

definition targetedSurvey :: "unit survey" where
  "targetedSurvey = runningSurvey \<lparr> survey_id := ''s4'', segment := Some privateSegment \<rparr>"

definition planFilter :: "string \<Rightarrow> attributeFilter" where
  "planFilter op = \<lparr> attributeClassName = ''plan'', operator = op, filter_value = AStr ''pro'' \<rparr>"

definition proPerson :: person where
  "proPerson =
     \<lparr> person_id = ''p1'', person_userId = None, attributes = Some [''plan'' \<mapsto> AStr ''pro''] \<rparr>"

definition noContext :: evaluation_context where
  "noContext =
     \<lparr> ctx_attributes = Map.empty, ctx_actionIds = [], ctx_deviceType = ''desktop'',
       ctx_environmentId = ''env1'', ctx_personId = ''p1'', ctx_userId = AStr [] \<rparr>"

definition writeDeps :: "unit write_deps" where
  "writeDeps =
     \<lparr> isZId = (\<lambda>s. s \<noteq> []),
       ZSurveyWithRefinements = (\<lambda>_. True),
       getActionClasses = (\<lambda>_. Inr [\<lparr> actionClass_id = ''ac1'', actionClass_name = ''signup'' \<rparr>]),
       currentSurveyById = (\<lambda>i. Inr (if i = ''s1'' then Some runningSurvey else None)),
       safeParseSegmentFilters = (\<lambda>_. True),
       updateSegment = (\<lambda>_ _. Inr ()),
       prismaSurveyUpdate =
         (\<lambda>i data. Inr (runningSurvey \<lparr> survey_id := i, status := data_status data,
                                           runOnDate := data_runOnDate data \<rparr>)),
       prismaSurveyCreate = (\<lambda>_. Inr targetedSurvey),
       subscribeTeamMembersToSurveyResponses = (\<lambda>_ _. Inr ()) \<rparr>"

definition plainInput :: surveyInput where
  "plainInput =
     \<lparr> input_name = ''Onboarding'', input_surveyType = Some ''web'', input_status = None,
       input_displayOption = None, input_recontactDays = None, input_triggers = Some [''signup''],
       input_inlineTriggers = None, input_createdBy = Some ''u1'' \<rparr>"

definition segmentReadDeps :: "(unit, unit) read_deps" where
  "segmentReadDeps =
     \<lparr> ZId = (\<lambda>s. s \<noteq> []),
       findUniqueSurvey = (\<lambda>i. Inr (if i = ''s4'' then Some targetedSurvey else None)),
       findManyByActionClassId = (\<lambda>_ _. Inr [targetedSurvey]),
       findManyByEnvironmentId = (\<lambda>_ _ _ _. Inr [targetedSurvey]),
       findManyBySegmentId = (\<lambda>g. Inr (if g = ''seg1'' then [targetedSurvey] else [])),
       stringifyCriteria = (\<lambda>_. ''undefined''),
       showNumber = (\<lambda>_. ''undefined'') \<rparr>"

definition emptyCache :: "unit cache" where
  "emptyCache = \<lparr> surveyEntries = Map.empty, surveysEntries = Map.empty \<rparr>"

definition noteStore :: "string \<Rightarrow> error + responseNote option" where
  "noteStore noteId =
     Inr (if noteId = ''n1'' then Some \<lparr> note_id = ''n1'', note_user_id = ''u1'' \<rparr> else None)"

text \<open>
  A second running survey that may be answered many times, a third one, and two display
  services: one that has a display of the first survey, one that has a display of the
  second survey at day seven.
\<close>

definition freshSurvey :: "unit survey" where
  "freshSurvey = runningSurvey \<lparr> survey_id := ''s5'', displayOption := ''respondMultiple'' \<rparr>"


definition shownDeps :: "unit sync_deps" where
  "shownDeps = plainDeps \<lparr> getDisplaysByPersonId := (\<lambda>_. Inr [unansweredDisplay]) \<rparr>"


text \<open>
  A person whose only attribute is "plan", and a segment service that translates every
  filter tree to the one attribute filter "constructor notEquals pro".
\<close>

definition planAttributes :: "string \<rightharpoonup> attr_value" where
  "planAttributes = [''plan'' \<mapsto> AStr ''pro'']"

definition planPerson :: person where
  "planPerson = \<lparr> person_id = ''p2'', person_userId = None, attributes = Some planAttributes \<rparr>"

definition constructorFilter :: attributeFilter where
  "constructorFilter =
     \<lparr> attributeClassName = ''constructor'', operator = ''notEquals'', filter_value = AStr ''pro'' \<rparr>"

definition constructorDeps :: "unit sync_deps" where
  "constructorDeps =
     plainDeps \<lparr> transformSegmentFiltersToAttributeFilters := (\<lambda>_. Some [constructorFilter]) \<rparr>"

text \<open>
  An id check, the note store after the note was deleted, and two states of the
  memoised answers: none, and a denial for user "u1" on note "n1".
\<close>

definition nonEmptyId :: "string \<Rightarrow> bool" where
  "nonEmptyId s = (s \<noteq> [])"

definition deletedNoteStore :: "string \<Rightarrow> error + responseNote option" where
  "deletedNoteStore noteId = Inr None"

definition noEntries :: "string \<rightharpoonup> bool" where
  "noEntries = Map.empty"

definition deniedEntries :: "string \<rightharpoonup> bool" where
  "deniedEntries = [''canUserModifyResponseNote-u1-n1'' \<mapsto> False]"

text \<open>A store before the migration and the store the migration turns it into.\<close>

definition legacyDb :: database where
  "legacyDb =
     \<lparr> db_surveys =
         [\<lparr> row_id = ''w1'', row_type = ''web'', row_segmentId = Some ''g1'' \<rparr>,
          \<lparr> row_id = ''w2'', row_type = ''web'', row_segmentId = Some ''g2'' \<rparr>,
          \<lparr> row_id = ''w3'', row_type = ''web'', row_segmentId = Some ''g3'' \<rparr>,
          \<lparr> row_id = ''l1'', row_type = ''link'', row_segmentId = Some ''g3'' \<rparr>],
       db_segments =
         [\<lparr> segRow_id = ''g1'', segRow_title = ''w1'', segRow_isPrivate = True \<rparr>,
          \<lparr> segRow_id = ''g2'', segRow_title = ''w2'', segRow_isPrivate = True \<rparr>,
          \<lparr> segRow_id = ''g3'', segRow_title = ''Power users'', segRow_isPrivate = False \<rparr>,
          \<lparr> segRow_id = ''g4'', segRow_title = ''w3'', segRow_isPrivate = True \<rparr>],
       db_responses =
         [\<lparr> response_surveyId = ''w1'', response_personId = None, response_createdAt = 1 \<rparr>,
          \<lparr> response_surveyId = ''w1'', response_personId = Some ''p1'', response_createdAt = 5 \<rparr>,
          \<lparr> response_surveyId = ''w2'', response_personId = None, response_createdAt = 7 \<rparr>] \<rparr>"

definition migratedDb :: database where
  "migratedDb =
     \<lparr> db_surveys =
         [\<lparr> row_id = ''w1'', row_type = ''app'', row_segmentId = Some ''g1'' \<rparr>,
          \<lparr> row_id = ''w2'', row_type = ''website'', row_segmentId = None \<rparr>,
          \<lparr> row_id = ''w3'', row_type = ''website'', row_segmentId = None \<rparr>,
          \<lparr> row_id = ''l1'', row_type = ''link'', row_segmentId = Some ''g3'' \<rparr>],
       db_segments =
         [\<lparr> segRow_id = ''g1'', segRow_title = ''w1'', segRow_isPrivate = True \<rparr>,
          \<lparr> segRow_id = ''g3'', segRow_title = ''Power users'', segRow_isPrivate = False \<rparr>],
       db_responses = db_responses legacyDb \<rparr>"

section \<open>Stage one: running in-app surveys\<close>

text \<open>
  C3, as the code has it.  The first stage keeps exactly the surveys whose status is
  "inProgress" and whose type is "web": a survey of the environment's list survives iff
  both hold.
\<close>

theorem runningWebSurveys_iff:
  "s \<in> set (runningWebSurveys surveys) \<longleftrightarrow>
     s \<in> set surveys \<and> status s = ''inProgress'' \<and> surveyType s = ''web''"
  by (auto simp: runningWebSurveys_def)

theorem runningWebSurveys_iff_witness:
  "runningSurvey \<in> set (runningWebSurveys [linkSurvey, runningSurvey])"
  using runningWebSurveys_iff [of runningSurvey "[linkSurvey, runningSurvey]"]
  by (simp add: runningSurvey_def)

text \<open>
  C3 as stated fails: a link survey with status "inProgress" is in the environment's
  list and does not survive the first stage.
\<close>

theorem runningWebSurveys_counterexample:
  "status linkSurvey = ''inProgress'' \<and> linkSurvey \<in> set [linkSurvey, runningSurvey] \<and>
   linkSurvey \<notin> set (runningWebSurveys [linkSurvey, runningSurvey])"
  by (simp add: runningWebSurveys_def linkSurvey_def runningSurvey_def)

section \<open>Stage two: display frequency\<close>

lemma filterE_Inl:
  "x \<in> set xs \<Longrightarrow> p x = Inl e \<Longrightarrow> (\<And>y e'. y \<in> set xs \<Longrightarrow> p y = Inl e' \<Longrightarrow> e' = e) \<Longrightarrow> filterE p xs = Inl e"
proof (induction xs)
  case Nil
  then show ?case by simp
next
  case (Cons a xs)
  show ?case
  proof (cases "p a")
    case (Inl e')
    with Cons.prems(3)[of a e'] show ?thesis by simp
  next
    case (Inr b)
    with Cons.prems have "x \<in> set xs" by auto
    from Cons.IH[OF this Cons.prems(2)] Cons.prems(3) have "filterE p xs = Inl e" by auto
    with Inr show ?thesis by simp
  qed
qed

lemma displayOptionPasses_error:
  "displayOptionPasses ds s = Inl e \<Longrightarrow> e = Error ''Invalid displayOption''"
  by (auto simp: displayOptionPasses_def split: if_splits)

lemma filterE_Inr:
  "(\<And>x. x \<in> set xs \<Longrightarrow> p x = Inr (q x)) \<Longrightarrow> filterE p xs = Inr (filter q xs)"
  by (induction xs) auto

lemma filterE_result:
  "filterE p xs = Inr ys \<Longrightarrow> ys = filter (\<lambda>x. p x = Inr True) xs"
proof (induction xs arbitrary: ys)
  case Nil
  then show ?case by simp
next
  case (Cons a xs)
  from Cons.prems obtain b zs where b: "p a = Inr b" and zs: "filterE p xs = Inr zs"
    and ys: "ys = (if b then a # zs else zs)"
    by (auto split: sum.splits)
  from Cons.IH[OF zs] b ys show ?case by simp
qed

lemma displayOptionPasses_valid:
  "displayOption s \<in> {''respondMultiple'', ''displayOnce'', ''displayMultiple''} \<Longrightarrow>
   displayOptionPasses ds s = Inr (displayOptionPasses ds s = Inr True)"
  by (auto simp: displayOptionPasses_def)

text \<open>The segment stage returns a survey as it is or drops it.\<close>

lemma evaluateSurveySegment_same:
  "evaluateSurveySegment tr ev version ctx p s = Inr (Some s') \<Longrightarrow> s' = s"
  by (auto simp: evaluateSurveySegment_def split: option.splits if_splits sum.splits)

lemma resolveSurveys_subset:
  assumes same: "\<And>x y. f x = Inr (Some y) \<Longrightarrow> y = x"
  shows "resolveSurveys f xs = Inr ys \<Longrightarrow> set ys \<subseteq> set xs"
proof (induction xs arbitrary: ys)
  case Nil
  then show ?case by simp
next
  case (Cons a xs)
  from Cons.prems obtain r zs where r: "f a = Inr r" and zs: "resolveSurveys f xs = Inr zs"
    and ys: "ys = (case r of None \<Rightarrow> zs | Some y \<Rightarrow> y # zs)"
    by (auto split: sum.splits)
  have sub: "set zs \<subseteq> set xs" using zs by (rule Cons.IH)
  show ?case
  proof (cases r)
    case None
    with ys sub show ?thesis by auto
  next
    case (Some y)
    with r same have "y = a" by blast
    with Some ys sub show ?thesis by auto
  qed
qed

lemma bindE_Inr_iff: "bindE r f = Inr y \<longleftrightarrow> (\<exists>x. r = Inr x \<and> f x = Inr y)"
  by (cases r) (simp_all add: bindE_def)

lemma resolveSurveys_bind_subset:
  assumes run: "bindE r (\<lambda>a. resolveSurveys (g a) xs) = Inr ys"
      and same: "\<And>a x y. g a x = Inr (Some y) \<Longrightarrow> y = x"
  shows "set ys \<subseteq> set xs"
proof -
  from run obtain a where "resolveSurveys (g a) xs = Inr ys"
    unfolding bindE_Inr_iff by blast
  then show ?thesis by (rule resolveSurveys_subset[rotated]) (rule same)
qed

text \<open>
  The pipeline after the display history has been read: the display-frequency filter,
  the recontact filter, and the segment stage on what is left.
\<close>

lemma eligibleSurveys_stages:
  assumes ne: "runningWebSurveys surveys0 \<noteq> []"
      and ds: "getDisplaysByPersonId deps (person_id p) = Inr ds"
      and f: "filterE (displayOptionPasses ds) (runningWebSurveys surveys0) = Inr surveys2"
  shows "eligibleSurveys deps now envId deviceType version theProduct p surveys0 =
          (if filter (recontactPasses (diffInDays deps) now theProduct ds) surveys2 = [] then Inr []
           else if \<not> anySurveyHasFilters deps
                       (filter (recontactPasses (diffInDays deps) now theProduct ds) surveys2)
           then Inr (filter (recontactPasses (diffInDays deps) now theProduct ds) surveys2)
           else
             bindE (getActionsByPersonId deps (person_id p)) (\<lambda>personActions.
               resolveSurveys
                 (evaluateSurveySegment (transformSegmentFiltersToAttributeFilters deps)
                    (evaluateSegment deps) version
                    \<lparr> ctx_attributes = (case attributes p of None \<Rightarrow> Map.empty | Some m \<Rightarrow> m),
                      ctx_actionIds =
                        uniqueInOrder
                          (map (\<lambda>a. case action_actionClassId a of None \<Rightarrow> [] | Some i \<Rightarrow> i)
                             personActions),
                      ctx_deviceType = deviceType,
                      ctx_environmentId = envId,
                      ctx_personId = person_id p,
                      ctx_userId = personUserId p \<rparr>
                    p)
                 (filter (recontactPasses (diffInDays deps) now theProduct ds) surveys2)))"
  using ne ds f by (simp add: eligibleSurveys_def Let_def bindE_def)

lemma eligibleSurveys_members:
  assumes run: "eligibleSurveys deps now envId deviceType version theProduct p surveys0 = Inr result"
      and ds: "getDisplaysByPersonId deps (person_id p) = Inr ds"
      and s: "s \<in> set result"
  shows "s \<in> set (runningWebSurveys surveys0) \<and> displayOptionPasses ds s = Inr True \<and>
         recontactPasses (diffInDays deps) now theProduct ds s"
proof -
  let ?s1 = "runningWebSurveys surveys0"
  have ne: "?s1 \<noteq> []"
  proof
    assume "?s1 = []"
    then have "eligibleSurveys deps now envId deviceType version theProduct p surveys0 = Inr []"
      by (simp add: eligibleSurveys_def)
    with run s show False by simp
  qed
  obtain surveys2 where f: "filterE (displayOptionPasses ds) ?s1 = Inr surveys2"
  proof (cases "filterE (displayOptionPasses ds) ?s1")
    case (Inl e)
    with ne ds have "eligibleSurveys deps now envId deviceType version theProduct p surveys0 = Inl e"
      by (simp add: eligibleSurveys_def Let_def bindE_def)
    with run show ?thesis by simp
  next
    case (Inr ys)
    then show ?thesis by (rule that)
  qed
  have s2: "surveys2 = filter (\<lambda>x. displayOptionPasses ds x = Inr True) ?s1"
    using f by (rule filterE_result)
  let ?s3 = "filter (recontactPasses (diffInDays deps) now theProduct ds) surveys2"
  note stages = eligibleSurveys_stages[OF ne ds f, of now envId deviceType version theProduct]
  have "s \<in> set ?s3"
  proof (cases "?s3 = []")
    case True
    with stages run s show ?thesis by simp
  next
    case False
    show ?thesis
    proof (cases "anySurveyHasFilters deps ?s3")
      case no: False
      with False stages run have "result = ?s3" by simp
      with s show ?thesis by simp
    next
      case True
      with False stages run have e:
        "bindE (getActionsByPersonId deps (person_id p)) (\<lambda>personActions.
           resolveSurveys
                 (evaluateSurveySegment (transformSegmentFiltersToAttributeFilters deps)
                    (evaluateSegment deps) version
                    \<lparr> ctx_attributes = (case attributes p of None \<Rightarrow> Map.empty | Some m \<Rightarrow> m),
                      ctx_actionIds =
                        uniqueInOrder
                          (map (\<lambda>a. case action_actionClassId a of None \<Rightarrow> [] | Some i \<Rightarrow> i)
                             personActions),
                      ctx_deviceType = deviceType,
                      ctx_environmentId = envId,
                      ctx_personId = person_id p,
                      ctx_userId = personUserId p \<rparr>
                    p) ?s3) = Inr result"
        by simp
      have "set result \<subseteq> set ?s3"
        by (rule resolveSurveys_bind_subset[OF e]) (rule evaluateSurveySegment_same)
      with s show ?thesis by blast
    qed
  qed
  with s2 show ?thesis by simp
qed

lemma eligibleSurveys_unsegmented:
  assumes ds: "getDisplaysByPersonId deps (person_id p) = Inr ds"
      and valid: "\<forall>x \<in> set (runningWebSurveys surveys0).
                    displayOption x \<in> {''respondMultiple'', ''displayOnce'', ''displayMultiple''}"
      and plain: "\<not> anySurveyHasFilters deps
                      (filter (recontactPasses (diffInDays deps) now theProduct ds)
                         (filter (\<lambda>x. displayOptionPasses ds x = Inr True)
                            (runningWebSurveys surveys0)))"
  shows "eligibleSurveys deps now envId deviceType version theProduct p surveys0 =
           Inr (filter (recontactPasses (diffInDays deps) now theProduct ds)
                  (filter (\<lambda>x. displayOptionPasses ds x = Inr True)
                     (runningWebSurveys surveys0)))"
proof (cases "runningWebSurveys surveys0 = []")
  case True
  then show ?thesis by (simp add: eligibleSurveys_def)
next
  case False
  have f: "filterE (displayOptionPasses ds) (runningWebSurveys surveys0) =
             Inr (filter (\<lambda>x. displayOptionPasses ds x = Inr True) (runningWebSurveys surveys0))"
    using valid by (intro filterE_Inr displayOptionPasses_valid) blast
  from eligibleSurveys_stages[OF False ds f, of now envId deviceType version theProduct] plain
  show ?thesis by simp
qed

text \<open>
  C1.  For every candidate survey and every display history, the display-frequency
  callback returns true for "respondMultiple"; for "displayOnce" it returns whether the
  history has no display of the survey; for "displayMultiple" it returns whether the
  history has no display of the survey with a response; for any other value it throws
  "Invalid displayOption", and so does the whole pipeline when such a survey reaches
  the stage.  When every survey has one of the three options, the stage returns exactly
  the surveys whose callback is true, in order; no survey whose callback is not true is
  in the result of the pipeline; and when no survey that is left carries segment filters,
  the pipeline returns exactly the running in-app surveys that pass this callback and
  the recontact callback.
\<close>

theorem displayOption_filter:
  "(displayOption s = ''respondMultiple'' \<longrightarrow> displayOptionPasses ds s = Inr True) \<and>
   (displayOption s = ''displayOnce'' \<longrightarrow>
      displayOptionPasses ds s = Inr (\<forall>d \<in> set ds. display_surveyId d \<noteq> survey_id s)) \<and>
   (displayOption s = ''displayMultiple'' \<longrightarrow>
      displayOptionPasses ds s =
        Inr (\<forall>d \<in> set ds. display_surveyId d = survey_id s \<longrightarrow> display_responseId d = None)) \<and>
   (displayOption s \<notin> {''respondMultiple'', ''displayOnce'', ''displayMultiple''} \<longrightarrow>
      displayOptionPasses ds s = Inl (Error ''Invalid displayOption'') \<and>
      (s \<in> set (runningWebSurveys surveys0) \<and> getDisplaysByPersonId deps (person_id p) = Inr ds \<longrightarrow>
         eligibleSurveys deps now envId deviceType version theProduct p surveys0
           = Inl (Error ''Invalid displayOption''))) \<and>
   ((\<forall>x \<in> set surveys. displayOption x \<in> {''respondMultiple'', ''displayOnce'', ''displayMultiple''}) \<longrightarrow>
      filterE (displayOptionPasses ds) surveys
        = Inr (filter (\<lambda>x. displayOptionPasses ds x = Inr True) surveys)) \<and>
   (getDisplaysByPersonId deps (person_id p) = Inr ds \<longrightarrow>
      (\<forall>result. eligibleSurveys deps now envId deviceType version theProduct p surveys0 = Inr result \<longrightarrow>
         (\<forall>x \<in> set result. displayOptionPasses ds x = Inr True)) \<and>
      ((\<forall>x \<in> set (runningWebSurveys surveys0).
           displayOption x \<in> {''respondMultiple'', ''displayOnce'', ''displayMultiple''}) \<and>
       \<not> anySurveyHasFilters deps
            (filter (recontactPasses (diffInDays deps) now theProduct ds)
               (filter (\<lambda>x. displayOptionPasses ds x = Inr True) (runningWebSurveys surveys0))) \<longrightarrow>
       eligibleSurveys deps now envId deviceType version theProduct p surveys0 =
         Inr (filter (recontactPasses (diffInDays deps) now theProduct ds)
                (filter (\<lambda>x. displayOptionPasses ds x = Inr True) (runningWebSurveys surveys0)))))"
proof -
  have a: "displayOption s = ''respondMultiple'' \<longrightarrow> displayOptionPasses ds s = Inr True"
    by (simp add: displayOptionPasses_def)
  have b: "displayOption s = ''displayOnce'' \<longrightarrow>
      displayOptionPasses ds s = Inr (\<forall>d \<in> set ds. display_surveyId d \<noteq> survey_id s)"
    by (simp add: displayOptionPasses_def filter_empty_conv)
  have c: "displayOption s = ''displayMultiple'' \<longrightarrow>
      displayOptionPasses ds s =
        Inr (\<forall>d \<in> set ds. display_surveyId d = survey_id s \<longrightarrow> display_responseId d = None)"
    by (auto simp: displayOptionPasses_def filter_empty_conv)
  have d: "displayOption s \<notin> {''respondMultiple'', ''displayOnce'', ''displayMultiple''} \<longrightarrow>
      displayOptionPasses ds s = Inl (Error ''Invalid displayOption'') \<and>
      (s \<in> set (runningWebSurveys surveys0) \<and> getDisplaysByPersonId deps (person_id p) = Inr ds \<longrightarrow>
         eligibleSurveys deps now envId deviceType version theProduct p surveys0
           = Inl (Error ''Invalid displayOption''))"
  proof (intro impI conjI)
    assume bad: "displayOption s \<notin> {''respondMultiple'', ''displayOnce'', ''displayMultiple''}"
    then show err: "displayOptionPasses ds s = Inl (Error ''Invalid displayOption'')"
      by (simp add: displayOptionPasses_def)
    assume h: "s \<in> set (runningWebSurveys surveys0) \<and> getDisplaysByPersonId deps (person_id p) = Inr ds"
    then have ne: "runningWebSurveys surveys0 \<noteq> []" by auto
    have "filterE (displayOptionPasses ds) (runningWebSurveys surveys0) = Inl (Error ''Invalid displayOption'')"
      using h err by (intro filterE_Inl[of s]) (auto dest: displayOptionPasses_error)
    with h ne show "eligibleSurveys deps now envId deviceType version theProduct p surveys0
             = Inl (Error ''Invalid displayOption'')"
      by (simp add: eligibleSurveys_def bindE_def Let_def)
  qed
  have e: "(\<forall>x \<in> set surveys. displayOption x \<in> {''respondMultiple'', ''displayOnce'', ''displayMultiple''}) \<longrightarrow>
      filterE (displayOptionPasses ds) surveys
        = Inr (filter (\<lambda>x. displayOptionPasses ds x = Inr True) surveys)"
  proof
    assume "\<forall>x \<in> set surveys. displayOption x \<in> {''respondMultiple'', ''displayOnce'', ''displayMultiple''}"
    then show "filterE (displayOptionPasses ds) surveys
        = Inr (filter (\<lambda>x. displayOptionPasses ds x = Inr True) surveys)"
      by (intro filterE_Inr displayOptionPasses_valid) blast
  qed
  have f: "getDisplaysByPersonId deps (person_id p) = Inr ds \<longrightarrow>
      (\<forall>result. eligibleSurveys deps now envId deviceType version theProduct p surveys0 = Inr result \<longrightarrow>
         (\<forall>x \<in> set result. displayOptionPasses ds x = Inr True)) \<and>
      ((\<forall>x \<in> set (runningWebSurveys surveys0).
           displayOption x \<in> {''respondMultiple'', ''displayOnce'', ''displayMultiple''}) \<and>
       \<not> anySurveyHasFilters deps
            (filter (recontactPasses (diffInDays deps) now theProduct ds)
               (filter (\<lambda>x. displayOptionPasses ds x = Inr True) (runningWebSurveys surveys0))) \<longrightarrow>
       eligibleSurveys deps now envId deviceType version theProduct p surveys0 =
         Inr (filter (recontactPasses (diffInDays deps) now theProduct ds)
                (filter (\<lambda>x. displayOptionPasses ds x = Inr True) (runningWebSurveys surveys0))))"
  proof (intro impI conjI allI ballI)
    fix result x
    assume "getDisplaysByPersonId deps (person_id p) = Inr ds"
      "eligibleSurveys deps now envId deviceType version theProduct p surveys0 = Inr result"
      "x \<in> set result"
    from eligibleSurveys_members[OF this(2) this(1) this(3)]
    show "displayOptionPasses ds x = Inr True" by blast
  next
    assume ds: "getDisplaysByPersonId deps (person_id p) = Inr ds"
      and h: "(\<forall>x \<in> set (runningWebSurveys surveys0).
           displayOption x \<in> {''respondMultiple'', ''displayOnce'', ''displayMultiple''}) \<and>
       \<not> anySurveyHasFilters deps
            (filter (recontactPasses (diffInDays deps) now theProduct ds)
               (filter (\<lambda>x. displayOptionPasses ds x = Inr True) (runningWebSurveys surveys0)))"
    from h have v: "\<forall>x \<in> set (runningWebSurveys surveys0).
           displayOption x \<in> {''respondMultiple'', ''displayOnce'', ''displayMultiple''}"
      and n: "\<not> anySurveyHasFilters deps
            (filter (recontactPasses (diffInDays deps) now theProduct ds)
               (filter (\<lambda>x. displayOptionPasses ds x = Inr True) (runningWebSurveys surveys0)))"
      by blast+
    from ds v n show "eligibleSurveys deps now envId deviceType version theProduct p surveys0 =
         Inr (filter (recontactPasses (diffInDays deps) now theProduct ds)
                (filter (\<lambda>x. displayOptionPasses ds x = Inr True) (runningWebSurveys surveys0)))"
      by (rule eligibleSurveys_unsegmented)
  qed
  from a b c d e f show ?thesis by (intro conjI)
qed

theorem displayOption_filter_witness:
  "displayOptionPasses [answeredDisplay] (runningSurvey \<lparr> displayOption := ''respondMultiple'' \<rparr>) = Inr True \<and>
   displayOptionPasses [unansweredDisplay] runningSurvey = Inr False \<and>
   displayOptionPasses [] runningSurvey = Inr True \<and>
   displayOptionPasses [unansweredDisplay] (runningSurvey \<lparr> displayOption := ''displayMultiple'' \<rparr>) = Inr True \<and>
   displayOptionPasses [unansweredDisplay, answeredDisplay]
     (runningSurvey \<lparr> displayOption := ''displayMultiple'' \<rparr>) = Inr False \<and>
   eligibleSurveys plainDeps 0 ''env1'' ''desktop'' None \<lparr> product_recontactDays = None \<rparr>
     legacyPerson [runningSurvey, invalidOptionSurvey] = Inl (Error ''Invalid displayOption'') \<and>
   filterE (displayOptionPasses [unansweredDisplay]) [runningSurvey, freshSurvey] = Inr [freshSurvey] \<and>
   eligibleSurveys shownDeps 0 ''env1'' ''desktop'' None \<lparr> product_recontactDays = None \<rparr>
     legacyPerson [runningSurvey, linkSurvey, freshSurvey] = Inr [freshSurvey]"
proof -
  have callbacks:
    "displayOptionPasses [answeredDisplay] (runningSurvey \<lparr> displayOption := ''respondMultiple'' \<rparr>) = Inr True \<and>
     displayOptionPasses [unansweredDisplay] runningSurvey = Inr False \<and>
     displayOptionPasses [] runningSurvey = Inr True \<and>
     displayOptionPasses [unansweredDisplay] (runningSurvey \<lparr> displayOption := ''displayMultiple'' \<rparr>) = Inr True \<and>
     displayOptionPasses [unansweredDisplay, answeredDisplay]
       (runningSurvey \<lparr> displayOption := ''displayMultiple'' \<rparr>) = Inr False \<and>
     eligibleSurveys plainDeps 0 ''env1'' ''desktop'' None \<lparr> product_recontactDays = None \<rparr>
       legacyPerson [runningSurvey, invalidOptionSurvey] = Inl (Error ''Invalid displayOption'')"
    using
      displayOption_filter [of "runningSurvey \<lparr> displayOption := ''respondMultiple'' \<rparr>" "[answeredDisplay]",
        THEN conjunct1]
      displayOption_filter [of runningSurvey "[unansweredDisplay]", THEN conjunct2, THEN conjunct1]
      displayOption_filter [of runningSurvey "[]", THEN conjunct2, THEN conjunct1]
      displayOption_filter [of "runningSurvey \<lparr> displayOption := ''displayMultiple'' \<rparr>" "[unansweredDisplay]",
        THEN conjunct2, THEN conjunct2, THEN conjunct1]
      displayOption_filter [of "runningSurvey \<lparr> displayOption := ''displayMultiple'' \<rparr>"
         "[unansweredDisplay, answeredDisplay]", THEN conjunct2, THEN conjunct2, THEN conjunct1]
      displayOption_filter [of invalidOptionSurvey "[]" "[runningSurvey, invalidOptionSurvey]" plainDeps
         legacyPerson 0 "''env1''" "''desktop''" None "\<lparr> product_recontactDays = None \<rparr>",
         THEN conjunct2, THEN conjunct2, THEN conjunct2, THEN conjunct1]
    by (simp add: runningSurvey_def invalidOptionSurvey_def answeredDisplay_def unansweredDisplay_def
          plainDeps_def runningWebSurveys_def)
  have valid: "\<forall>x \<in> set [runningSurvey, freshSurvey].
      displayOption x \<in> {''respondMultiple'', ''displayOnce'', ''displayMultiple''}"
    by (simp add: runningSurvey_def freshSurvey_def)
  have kept: "filter (\<lambda>x. displayOptionPasses [unansweredDisplay] x = Inr True) [runningSurvey, freshSurvey]
      = [freshSurvey]"
    by (simp add: displayOptionPasses_def runningSurvey_def freshSurvey_def unansweredDisplay_def)
  have stage: "filterE (displayOptionPasses [unansweredDisplay]) [runningSurvey, freshSurvey] = Inr [freshSurvey]"
    using displayOption_filter [where ds = "[unansweredDisplay]" and surveys = "[runningSurvey, freshSurvey]",
        THEN conjunct2, THEN conjunct2, THEN conjunct2, THEN conjunct2, THEN conjunct1, THEN mp, OF valid]
    by (simp only: kept)
  have shown: "getDisplaysByPersonId shownDeps (person_id legacyPerson) = Inr [unansweredDisplay]"
    by (simp add: shownDeps_def)
  have running: "runningWebSurveys [runningSurvey, linkSurvey, freshSurvey] = [runningSurvey, freshSurvey]"
    by (simp add: runningWebSurveys_def runningSurvey_def linkSurvey_def freshSurvey_def)
  have recontact: "filter (recontactPasses (diffInDays shownDeps) 0 \<lparr> product_recontactDays = None \<rparr>
      [unansweredDisplay]) [freshSurvey] = [freshSurvey]"
    by (simp add: recontactPasses_def freshSurvey_def runningSurvey_def unansweredDisplay_def)
  have plain: "\<not> anySurveyHasFilters shownDeps [freshSurvey]"
    by (simp add: shownDeps_def plainDeps_def)
  have pipeline: "eligibleSurveys shownDeps 0 ''env1'' ''desktop'' None \<lparr> product_recontactDays = None \<rparr>
     legacyPerson [runningSurvey, linkSurvey, freshSurvey] = Inr [freshSurvey]"
    using displayOption_filter [where ds = "[unansweredDisplay]" and deps = shownDeps
        and p = legacyPerson and now = 0 and theProduct = "\<lparr> product_recontactDays = None \<rparr>"
        and ?surveys0.0 = "[runningSurvey, linkSurvey, freshSurvey]" and envId = "''env1''"
        and deviceType = "''desktop''" and version = None,
        THEN conjunct2, THEN conjunct2, THEN conjunct2, THEN conjunct2, THEN conjunct2, THEN mp,
        OF shown, THEN conjunct2]
      valid plain
    by (simp only: running kept recontact) simp
  from callbacks stage pipeline show ?thesis by (intro conjI) blast+
qed

section \<open>Stage three: the recontact window\<close>









section \<open>Stage four: segments on the legacy path\<close>

lemma legacy_never_throws:
  "version = None \<or> version = Some [] \<Longrightarrow> \<exists>r. evaluateSurveySegment tr ev version ctx p s = Inr r"
  by (auto simp: evaluateSurveySegment_def split: option.splits)

lemma resolveSurveys_Inr:
  "(\<And>x. x \<in> set xs \<Longrightarrow> f x = Inr (if q x then Some x else None)) \<Longrightarrow>
   resolveSurveys f xs = Inr (filter q xs)"
  by (induction xs) auto

lemma legacy_eval_shape:
  "version = None \<or> version = Some [] \<Longrightarrow>
   evaluateSurveySegment tr ev version ctx p s =
     Inr (if evaluateSurveySegment tr ev version ctx p s = Inr (Some s) then Some s else None)"
  by (auto simp: evaluateSurveySegment_def split: option.splits)

text \<open>
  C4.  On the legacy path (no protocol version) evaluating a survey's segment never
  throws: when the translation to attribute filters gives \<open>null\<close> the survey resolves
  to \<open>null\<close>; an attribute filter whose operator is neither "equals" nor "notEquals"
  evaluates to false and a survey carrying one resolves to \<open>null\<close>; and the stage as a
  whole returns a list from which every survey that resolved to \<open>null\<close> is absent.
\<close>

theorem legacy_segment_errors_contained:
  assumes legacy: "version = None \<or> version = Some []"
  shows
   "(segment s = Some seg \<and> tr (filters seg) = None \<longrightarrow>
       evaluateSurveySegment tr ev version ctx p s = Inr None) \<and>
    (operator af \<noteq> ''equals'' \<and> operator af \<noteq> ''notEquals'' \<longrightarrow>
       \<not> attributeFilterHolds p af \<and>
       (segment s = Some seg \<and> tr (filters seg) = Some afs \<and> af \<in> set afs \<longrightarrow>
          evaluateSurveySegment tr ev version ctx p s = Inr None)) \<and>
    (\<exists>kept. resolveSurveys (evaluateSurveySegment tr ev version ctx p) surveys = Inr kept \<and>
       set kept \<subseteq> set surveys \<and>
       (\<forall>x \<in> set surveys. evaluateSurveySegment tr ev version ctx p x = Inr None \<longrightarrow> x \<notin> set kept))"
proof (intro conjI impI)
  assume "segment s = Some seg \<and> tr (filters seg) = None"
  with legacy show "evaluateSurveySegment tr ev version ctx p s = Inr None"
    by (auto simp: evaluateSurveySegment_def)
next
  assume op: "operator af \<noteq> ''equals'' \<and> operator af \<noteq> ''notEquals''"
  then show no: "\<not> attributeFilterHolds p af"
    by (simp add: attributeFilterHolds_def split: option.splits property.splits)
  assume "segment s = Some seg \<and> tr (filters seg) = Some afs \<and> af \<in> set afs"
  with legacy no show "evaluateSurveySegment tr ev version ctx p s = Inr None"
    by (auto simp: evaluateSurveySegment_def list_all_iff)
next
  let ?f = "evaluateSurveySegment tr ev version ctx p"
  have "resolveSurveys ?f surveys = Inr (filter (\<lambda>x. ?f x = Inr (Some x)) surveys)"
    by (rule resolveSurveys_Inr) (rule legacy_eval_shape[OF legacy])
  then show "\<exists>kept. resolveSurveys ?f surveys = Inr kept \<and> set kept \<subseteq> set surveys \<and>
       (\<forall>x \<in> set surveys. ?f x = Inr None \<longrightarrow> x \<notin> set kept)"
    by auto
qed

theorem legacy_segment_errors_contained_witness:
  "evaluateSurveySegment (\<lambda>_. None) (\<lambda>_ _. Inl TypeError) None noContext proPerson targetedSurvey
     = Inr None \<and>
   \<not> attributeFilterHolds proPerson (planFilter ''contains'') \<and>
   evaluateSurveySegment (\<lambda>_. Some [planFilter ''equals'', planFilter ''contains''])
     (\<lambda>_ _. Inl TypeError) None noContext proPerson targetedSurvey = Inr None \<and>
   resolveSurveys
     (evaluateSurveySegment (\<lambda>_. None) (\<lambda>_ _. Inl TypeError) None noContext proPerson)
     [runningSurvey, targetedSurvey] = Inr [runningSurvey]"
proof -
  have legacy: "(None :: string option) = None \<or> (None :: string option) = Some []" by simp
  show ?thesis
    using
      legacy_segment_errors_contained [OF legacy, where s = targetedSurvey and seg = privateSegment
        and tr = "\<lambda>_. None" and af = "planFilter ''contains''" and p = proPerson and afs = "[]"
        and ev = "\<lambda>_ _. Inl TypeError" and ctx = noContext
        and surveys = "[runningSurvey, targetedSurvey]"]
      legacy_segment_errors_contained [OF legacy, where s = targetedSurvey and seg = privateSegment
        and tr = "\<lambda>_. Some [planFilter ''equals'', planFilter ''contains'']"
        and af = "planFilter ''contains''" and p = proPerson
        and afs = "[planFilter ''equals'', planFilter ''contains'']"
        and ev = "\<lambda>_ _. Inl TypeError" and ctx = noContext and surveys = "[]"]
    by (simp add: targetedSurvey_def runningSurvey_def privateSegment_def planFilter_def
          evaluateSurveySegment_def)
qed

text \<open>
  An attribute that is neither an own key of the person's attributes nor a member
  inherited from \<open>Object.prototype\<close>, or an own key with a falsy value, fails every
  attribute filter, "notEquals" included, and a survey whose filters contain it resolves
  to \<open>null\<close>.
\<close>

lemma legacy_missing_attribute_excludes:
  assumes legacy: "version = None \<or> version = Some []"
      and missing: "personAttributeValue p (attributeClassName af) = None \<or>
                    (\<exists>v. personAttributeValue p (attributeClassName af) = Some (Own v) \<and> \<not> truthy v)"
  shows "\<not> attributeFilterHolds p af \<and>
         (segment s = Some seg \<and> tr (filters seg) = Some afs \<and> af \<in> set afs \<longrightarrow>
            evaluateSurveySegment tr ev version ctx p s = Inr None)"
proof (intro conjI impI)
  from missing show no: "\<not> attributeFilterHolds p af"
    by (auto simp: attributeFilterHolds_def)
  assume "segment s = Some seg \<and> tr (filters seg) = Some afs \<and> af \<in> set afs"
  with legacy no show "evaluateSurveySegment tr ev version ctx p s = Inr None"
    by (auto simp: evaluateSurveySegment_def list_all_iff)
qed

text \<open>
  C8 at an inherited member.  The person has the one attribute "plan"; the survey's
  segment translates to the one attribute filter "constructor notEquals pro".  The
  attribute "constructor" is absent from the person's attributes, yet the lookup finds
  the member inherited from \<open>Object.prototype\<close>, the filter evaluates to true, and on
  the legacy path the survey is kept.
\<close>

theorem legacy_inherited_attribute_satisfies_notEquals:
  "attributes planPerson = Some planAttributes \<and>
   planAttributes ''constructor'' = None \<and>
   attributeClassName constructorFilter = ''constructor'' \<and>
   operator constructorFilter = ''notEquals'' \<and>
   attributeFilterHolds planPerson constructorFilter \<and>
   transformSegmentFiltersToAttributeFilters constructorDeps (filters privateSegment)
     = Some [constructorFilter] \<and>
   evaluateSurveySegment (transformSegmentFiltersToAttributeFilters constructorDeps)
     (evaluateSegment constructorDeps) None noContext planPerson targetedSurvey
     = Inr (Some targetedSurvey)"
  by (simp add: planPerson_def planAttributes_def constructorFilter_def constructorDeps_def
        plainDeps_def attributeFilterHolds_def personAttributeValue_def objectPrototypeMembers_def
        evaluateSurveySegment_def targetedSurvey_def privateSegment_def)

section \<open>The cached reads and their date fields\<close>

lemma restoreDate_typed: "isDate (restoreDate d)"
  by (cases d) simp_all

lemma formatSurveyDateFields_typed: "datesTyped (formatSurveyDateFields s)"
  by (simp add: datesTyped_def formatSurveyDateFields_def formatSegmentDateFields_def optDate_def
        restoreDate_typed split: option.splits)

lemma getSurvey_typed:
  "fst (getSurvey deps surveyId cache) = Inr (Some s) \<Longrightarrow> datesTyped s"
  by (auto simp: getSurvey_def formatSurveyDateFields_typed split: prod.splits sum.splits option.splits)

lemma getSurveysByActionClassId_typed:
  "fst (getSurveysByActionClassId deps actionClassId page cache) = Inr r \<Longrightarrow> s \<in> set r \<Longrightarrow> datesTyped s"
  by (auto simp: getSurveysByActionClassId_def formatSurveyDateFields_typed split: prod.splits sum.splits)

lemma getSurveys_typed:
  "fst (getSurveys nested deps envId limit offset criteria cache) = Inr r \<Longrightarrow> s \<in> set r \<Longrightarrow> datesTyped s"
  by (auto simp: getSurveys_def formatSurveyDateFields_typed split: prod.splits sum.splits)

lemma getSyncSurveys_typed:
  "fst (getSyncSurveys deps sdeps now envId personId deviceType version cache) = Inr r \<Longrightarrow>
   s \<in> set r \<Longrightarrow> datesTyped s"
  by (auto simp: getSyncSurveys_def formatSurveyDateFields_typed Let_def
      split: prod.splits sum.splits)

text \<open>
  C5 at getSurveysBySegmentId.  The four reads above map what the cache gives them
  through \<open>formatSurveyDateFields\<close>; getSurveysBySegmentId does not.  Reading the
  surveys of segment "seg1" twice, the second read is served from the cache and returns
  the survey with the creation and update times of the survey and of its segment as
  strings.
\<close>

theorem getSurveysBySegmentId_second_read:
  "fst (getSurveysBySegmentId segmentReadDeps ''seg1''
          (snd (getSurveysBySegmentId segmentReadDeps ''seg1'' emptyCache)))
     = Inr [targetedSurvey \<lparr> createdAt := DateString 1000, updatedAt := DateString 2000,
              segment := Some (privateSegment \<lparr> segment_createdAt := DateString 500,
                                                segment_updatedAt := DateString 600 \<rparr>) \<rparr>] \<and>
   \<not> datesTyped (targetedSurvey \<lparr> createdAt := DateString 1000, updatedAt := DateString 2000,
              segment := Some (privateSegment \<lparr> segment_createdAt := DateString 500,
                                                segment_updatedAt := DateString 600 \<rparr>) \<rparr>)"
  by (simp add: getSurveysBySegmentId_def unstable_cache_def segmentReadDeps_def emptyCache_def
        jsonSurvey_def jsonSegment_def targetedSurvey_def runningSurvey_def privateSegment_def
        datesTyped_def)

section \<open>updateSurvey: the scheduled status\<close>

lemma updateSurveyData_status:
  assumes "updateSurveyData deps now u = Inr data"
  shows "(status u = ''scheduled'' \<and> runOnDate u = None \<longrightarrow> data_status data = ''inProgress'') \<and>
         ((status u = ''completed'' \<or> status u = ''paused'' \<or> status u = ''inProgress'') \<and>
          (\<exists>t. runOnDate u = Some (DateObj t) \<and> now < t) \<longrightarrow> data_status data = ''scheduled'') \<and>
         \<not> (data_status data = ''scheduled'' \<and> data_runOnDate data = None)"
proof -
  from assms obtain tu where
    d: "data = \<lparr> data_id = survey_id u,
                      data_createdAt = createdAt u,
                      data_updatedAt = updatedAt u,
                      data_status =
                   (let status1 =
                   (if status u = ''scheduled'' \<and> runOnDate u = None
                    then ''inProgress'' else status u) in
                   (if (status1 = ''completed'' \<or> status1 = ''paused'' \<or> status1 = ''inProgress'')
                       \<and> (case runOnDate u of
                             None \<Rightarrow> False
                           | Some d \<Rightarrow> laterThan d now)
                    then ''scheduled'' else status1)),
                      data_surveyType = surveyType u,
                      data_displayOption = displayOption u,
                      data_recontactDays = recontactDays u,
                      data_runOnDate = runOnDate u,
                      data_closeOnDate = closeOnDate u,
                      data_inlineTriggers = inlineTriggers u,
                      data_triggers = Some tu \<rparr>"
    by (auto simp: updateSurveyData_def bindE_Inr_iff Let_def split: option.splits)
  show ?thesis
    unfolding d by (auto simp: Let_def split: option.splits)
qed

text \<open>
  C6.  updateSurvey calls the store's update exactly when it has built its data object,
  with that object and the survey's id, and returns the store's outcome; it succeeds
  only through such a call.  The status in the object handed to the store is
  "inProgress" if the input was "scheduled" with no runOnDate, and "scheduled" if the
  input was "completed", "paused" or "inProgress" with a runOnDate strictly after the
  current time; and the object never has "scheduled" together with a null runOnDate.
\<close>

theorem updateSurvey_status_normalized:
  "(\<forall>data. updateSurveyData deps now u = Inr data \<longrightarrow>
      updateSurvey deps now u =
        (case prismaSurveyUpdate deps (survey_id u) data of
           Inl e \<Rightarrow> Inl e
         | Inr prismaSurvey \<Rightarrow> Inr (prismaSurvey \<lparr> triggers := triggers u \<rparr>)) \<and>
      (status u = ''scheduled'' \<and> runOnDate u = None \<longrightarrow> data_status data = ''inProgress'') \<and>
      ((status u = ''completed'' \<or> status u = ''paused'' \<or> status u = ''inProgress'') \<and>
       (\<exists>t. runOnDate u = Some (DateObj t) \<and> now < t) \<longrightarrow> data_status data = ''scheduled'') \<and>
      \<not> (data_status data = ''scheduled'' \<and> data_runOnDate data = None)) \<and>
   (\<forall>e. updateSurveyData deps now u = Inl e \<longrightarrow> updateSurvey deps now u = Inl e) \<and>
   (\<forall>r. updateSurvey deps now u = Inr r \<longrightarrow>
      (\<exists>data prismaSurvey.
         updateSurveyData deps now u = Inr data \<and>
         prismaSurveyUpdate deps (survey_id u) data = Inr prismaSurvey \<and>
         r = prismaSurvey \<lparr> triggers := triggers u \<rparr> \<and>
         (status u = ''scheduled'' \<and> runOnDate u = None \<longrightarrow> data_status data = ''inProgress'') \<and>
         ((status u = ''completed'' \<or> status u = ''paused'' \<or> status u = ''inProgress'') \<and>
          (\<exists>t. runOnDate u = Some (DateObj t) \<and> now < t) \<longrightarrow> data_status data = ''scheduled'') \<and>
         \<not> (data_status data = ''scheduled'' \<and> data_runOnDate data = None)))"
proof -
  have one: "updateSurvey deps now u =
        (case prismaSurveyUpdate deps (survey_id u) data of
           Inl e \<Rightarrow> Inl e
         | Inr prismaSurvey \<Rightarrow> Inr (prismaSurvey \<lparr> triggers := triggers u \<rparr>)) \<and>
      (status u = ''scheduled'' \<and> runOnDate u = None \<longrightarrow> data_status data = ''inProgress'') \<and>
      ((status u = ''completed'' \<or> status u = ''paused'' \<or> status u = ''inProgress'') \<and>
       (\<exists>t. runOnDate u = Some (DateObj t) \<and> now < t) \<longrightarrow> data_status data = ''scheduled'') \<and>
      \<not> (data_status data = ''scheduled'' \<and> data_runOnDate data = None)"
    if d: "updateSurveyData deps now u = Inr data" for data
  proof -
    have "updateSurvey deps now u =
        (case prismaSurveyUpdate deps (survey_id u) data of
           Inl e \<Rightarrow> Inl e
         | Inr prismaSurvey \<Rightarrow> Inr (prismaSurvey \<lparr> triggers := triggers u \<rparr>))"
      by (simp add: updateSurvey_def d bindE_def)
    with updateSurveyData_status[OF d] show ?thesis by blast
  qed
  have two: "updateSurvey deps now u = Inl e" if "updateSurveyData deps now u = Inl e" for e
    using that by (simp add: updateSurvey_def bindE_def)
  have three: "\<exists>data prismaSurvey.
         updateSurveyData deps now u = Inr data \<and>
         prismaSurveyUpdate deps (survey_id u) data = Inr prismaSurvey \<and>
         r = prismaSurvey \<lparr> triggers := triggers u \<rparr> \<and>
         (status u = ''scheduled'' \<and> runOnDate u = None \<longrightarrow> data_status data = ''inProgress'') \<and>
         ((status u = ''completed'' \<or> status u = ''paused'' \<or> status u = ''inProgress'') \<and>
          (\<exists>t. runOnDate u = Some (DateObj t) \<and> now < t) \<longrightarrow> data_status data = ''scheduled'') \<and>
         \<not> (data_status data = ''scheduled'' \<and> data_runOnDate data = None)"
    if r: "updateSurvey deps now u = Inr r" for r
  proof -
    from r obtain data prismaSurvey where d: "updateSurveyData deps now u = Inr data"
      and s: "prismaSurveyUpdate deps (survey_id u) data = Inr prismaSurvey"
      and eq: "r = prismaSurvey \<lparr> triggers := triggers u \<rparr>"
      unfolding updateSurvey_def bindE_Inr_iff by auto
    from d s eq updateSurveyData_status[OF d] show ?thesis by blast
  qed
  from one two three show ?thesis by blast
qed

text \<open>
  The store of \<open>writeDeps\<close> returns a row that carries the status and the runOnDate it
  was handed, so the two updates below show what was stored.
\<close>

theorem updateSurvey_status_normalized_witness:
  "updateSurvey writeDeps 50 (runningSurvey \<lparr> status := ''scheduled'' \<rparr>)
     = Inr (runningSurvey \<lparr> status := ''inProgress'' \<rparr>) \<and>
   updateSurvey writeDeps 50 (runningSurvey \<lparr> status := ''paused'', runOnDate := Some (DateObj 100) \<rparr>)
     = Inr (runningSurvey \<lparr> status := ''scheduled'', runOnDate := Some (DateObj 100) \<rparr>)"
proof -
  have d1: "updateSurveyData writeDeps 50 (runningSurvey \<lparr> status := ''scheduled'' \<rparr>) =
      Inr \<lparr> data_id = ''s1'', data_createdAt = DateObj 1000, data_updatedAt = DateObj 2000,
            data_status = ''inProgress'', data_surveyType = ''web'',
            data_displayOption = ''displayOnce'', data_recontactDays = Some 7,
            data_runOnDate = None, data_closeOnDate = None, data_inlineTriggers = None,
            data_triggers = Some \<lparr> create = None, deleteMany = None \<rparr> \<rparr>"
    by (simp add: updateSurveyData_def writeDeps_def runningSurvey_def bindE_def validateInputs_def
          processTriggerUpdates_def revalidateSurveyByActionClassName_def Let_def)
  have d2: "updateSurveyData writeDeps 50
      (runningSurvey \<lparr> status := ''paused'', runOnDate := Some (DateObj 100) \<rparr>) =
      Inr \<lparr> data_id = ''s1'', data_createdAt = DateObj 1000, data_updatedAt = DateObj 2000,
            data_status = ''scheduled'', data_surveyType = ''web'',
            data_displayOption = ''displayOnce'', data_recontactDays = Some 7,
            data_runOnDate = Some (DateObj 100), data_closeOnDate = None, data_inlineTriggers = None,
            data_triggers = Some \<lparr> create = None, deleteMany = None \<rparr> \<rparr>"
    by (simp add: updateSurveyData_def writeDeps_def runningSurvey_def bindE_def validateInputs_def
          processTriggerUpdates_def revalidateSurveyByActionClassName_def Let_def)
  have a: "updateSurvey writeDeps 50 (runningSurvey \<lparr> status := ''scheduled'' \<rparr>)
     = Inr (runningSurvey \<lparr> status := ''inProgress'' \<rparr>)"
    using updateSurvey_status_normalized [where deps = writeDeps and now = 50
        and u = "runningSurvey \<lparr> status := ''scheduled'' \<rparr>",
        THEN conjunct1, THEN spec, THEN mp, OF d1, THEN conjunct1]
    by (simp add: writeDeps_def runningSurvey_def)
  have b: "updateSurvey writeDeps 50
      (runningSurvey \<lparr> status := ''paused'', runOnDate := Some (DateObj 100) \<rparr>)
     = Inr (runningSurvey \<lparr> status := ''scheduled'', runOnDate := Some (DateObj 100) \<rparr>)"
    using updateSurvey_status_normalized [where deps = writeDeps and now = 50
        and u = "runningSurvey \<lparr> status := ''paused'', runOnDate := Some (DateObj 100) \<rparr>",
        THEN conjunct1, THEN spec, THEN mp, OF d2, THEN conjunct1]
    by (simp add: writeDeps_def runningSurvey_def)
  from a b show ?thesis by (intro conjI)
qed

section \<open>createSurvey: no segment\<close>

text \<open>
  C9.  Whatever the body and whatever row the store returns, a createSurvey call that
  succeeds returns a survey whose segment is null.
\<close>

theorem createSurvey_segment_null:
  "createSurvey deps envId surveyBody = Inr s \<Longrightarrow> segment s = None"
  by (auto simp: createSurvey_def bindE_Inr_iff Let_def split: if_splits)

theorem createSurvey_segment_null_witness:
  "createSurvey writeDeps ''env1'' plainInput = Inr (targetedSurvey \<lparr> segment := None \<rparr>) \<and>
   segment (targetedSurvey \<lparr> segment := None \<rparr>) = None \<and> segment targetedSurvey \<noteq> None"
proof -
  have c: "createSurvey writeDeps ''env1'' plainInput = Inr (targetedSurvey \<lparr> segment := None \<rparr>)"
    by (simp add: createSurvey_def writeDeps_def plainInput_def bindE_def validateInputs_def
          processTriggerUpdates_def revalidateSurveyByActionClassName_def
          getActionClassIdFromName_def Let_def)
  show ?thesis
    using c createSurvey_segment_null [OF c] by (simp add: targetedSurvey_def)
qed

section \<open>canUserModifyResponseNote\<close>

text \<open>
  C10, as the code has it.  For ids that pass validation and are not empty:
  canUserModifyResponseNote returns the answer memoised for the pair of ids when there
  is one; otherwise it returns true iff the response note exists and its author's id is
  the given user id, it returns false, not an error, when the note does not exist, and
  it memoises the answer it returns.
\<close>

theorem canUserModifyResponseNote_memoised:
  assumes ids: "zid userId" "zid responseNoteId" "userId \<noteq> []" "responseNoteId \<noteq> []"
  shows "(entries (''canUserModifyResponseNote-'' @ userId @ ''-'' @ responseNoteId) = None \<longrightarrow>
            (fst (canUserModifyResponseNote zid getResponseNote userId responseNoteId entries) = Inr True
               \<longleftrightarrow> (\<exists>note. getResponseNote responseNoteId = Inr (Some note)
                            \<and> note_user_id note = userId)) \<and>
            (getResponseNote responseNoteId = Inr None \<longrightarrow>
               fst (canUserModifyResponseNote zid getResponseNote userId responseNoteId entries)
                 = Inr False) \<and>
            (\<forall>b. fst (canUserModifyResponseNote zid getResponseNote userId responseNoteId entries)
                    = Inr b \<longrightarrow>
                 snd (canUserModifyResponseNote zid getResponseNote userId responseNoteId entries)
                   (''canUserModifyResponseNote-'' @ userId @ ''-'' @ responseNoteId) = Some b)) \<and>
         (\<forall>b. entries (''canUserModifyResponseNote-'' @ userId @ ''-'' @ responseNoteId) = Some b \<longrightarrow>
            fst (canUserModifyResponseNote zid getResponseNote userId responseNoteId entries) = Inr b)"
proof (intro conjI impI allI)
  assume miss: "entries (''canUserModifyResponseNote-'' @ userId @ ''-'' @ responseNoteId) = None"
  show "fst (canUserModifyResponseNote zid getResponseNote userId responseNoteId entries) = Inr True
               \<longleftrightarrow> (\<exists>note. getResponseNote responseNoteId = Inr (Some note)
                            \<and> note_user_id note = userId)"
    using miss ids
    by (cases "getResponseNote responseNoteId")
       (auto simp: canUserModifyResponseNote_def unstable_cache_def bindE_def validateInputs_def
          split: option.splits)
  show "fst (canUserModifyResponseNote zid getResponseNote userId responseNoteId entries) = Inr False"
    if "getResponseNote responseNoteId = Inr None"
    using miss ids that
    by (simp add: canUserModifyResponseNote_def unstable_cache_def bindE_def validateInputs_def)
  show "snd (canUserModifyResponseNote zid getResponseNote userId responseNoteId entries)
          (''canUserModifyResponseNote-'' @ userId @ ''-'' @ responseNoteId) = Some b"
    if "fst (canUserModifyResponseNote zid getResponseNote userId responseNoteId entries) = Inr b"
    for b
    using miss ids that
    by (cases "getResponseNote responseNoteId")
       (auto simp: canUserModifyResponseNote_def unstable_cache_def bindE_def validateInputs_def
          split: option.splits)
next
  fix b
  assume "entries (''canUserModifyResponseNote-'' @ userId @ ''-'' @ responseNoteId) = Some b"
  then show "fst (canUserModifyResponseNote zid getResponseNote userId responseNoteId entries) = Inr b"
    by (simp add: canUserModifyResponseNote_def unstable_cache_def)
qed

theorem canUserModifyResponseNote_memoised_witness:
  "fst (canUserModifyResponseNote nonEmptyId noteStore ''u1'' ''n1'' noEntries) = Inr True \<and>
   fst (canUserModifyResponseNote nonEmptyId noteStore ''u1'' ''n2'' noEntries) = Inr False \<and>
   fst (canUserModifyResponseNote nonEmptyId noteStore ''u1'' ''n1'' deniedEntries) = Inr False"
proof -
  have ids: "nonEmptyId ''u1''" "nonEmptyId ''n1''" "nonEmptyId ''n2''"
    "''u1'' \<noteq> []" "''n1'' \<noteq> []" "''n2'' \<noteq> []"
    by (simp_all add: nonEmptyId_def)
  have miss1: "noEntries (''canUserModifyResponseNote-'' @ ''u1'' @ ''-'' @ ''n1'') = None"
    by (simp add: noEntries_def)
  have miss2: "noEntries (''canUserModifyResponseNote-'' @ ''u1'' @ ''-'' @ ''n2'') = None"
    by (simp add: noEntries_def)
  have hit: "deniedEntries (''canUserModifyResponseNote-'' @ ''u1'' @ ''-'' @ ''n1'') = Some False"
    by (simp add: deniedEntries_def)
  have a: "fst (canUserModifyResponseNote nonEmptyId noteStore ''u1'' ''n1'' noEntries) = Inr True"
    using canUserModifyResponseNote_memoised [OF ids(1) ids(2) ids(4) ids(5),
        where entries = noEntries and getResponseNote = noteStore,
        THEN conjunct1, THEN mp, OF miss1, THEN conjunct1]
    by (simp add: noteStore_def)
  have b: "fst (canUserModifyResponseNote nonEmptyId noteStore ''u1'' ''n2'' noEntries) = Inr False"
    using canUserModifyResponseNote_memoised [OF ids(1) ids(3) ids(4) ids(6),
        where entries = noEntries and getResponseNote = noteStore,
        THEN conjunct1, THEN mp, OF miss2, THEN conjunct2, THEN conjunct1]
    by (simp add: noteStore_def)
  have c: "fst (canUserModifyResponseNote nonEmptyId noteStore ''u1'' ''n1'' deniedEntries) = Inr False"
    using canUserModifyResponseNote_memoised [OF ids(1) ids(2) ids(4) ids(5),
        where entries = deniedEntries and getResponseNote = noteStore,
        THEN conjunct2, THEN spec, THEN mp, OF hit] .
  from a b c show ?thesis by (intro conjI)
qed

text \<open>
  C10 as stated fails on a memoised answer.  The note "n1" of user "u1" exists at the
  first call, which returns true and memoises it; the note is then deleted; the second
  call, with the entries the first one left, returns true although the note does not
  exist.
\<close>

theorem canUserModifyResponseNote_counterexample:
  "fst (canUserModifyResponseNote nonEmptyId noteStore ''u1'' ''n1'' noEntries) = Inr True \<and>
   deletedNoteStore ''n1'' = Inr None \<and>
   fst (canUserModifyResponseNote nonEmptyId deletedNoteStore ''u1'' ''n1''
          (snd (canUserModifyResponseNote nonEmptyId noteStore ''u1'' ''n1'' noEntries))) = Inr True"
  by (simp add: canUserModifyResponseNote_def unstable_cache_def bindE_def validateInputs_def
        nonEmptyId_def noteStore_def deletedNoteStore_def noEntries_def)

section \<open>The migration\<close>

lemma descends_refl: "descends T d d"
  by (auto simp: descends_def)

lemma descends_trans:
  assumes "descends T1 d d1" "descends T2 d1 d2"
  shows "descends (T1 \<union> T2) d d2"
  unfolding descends_def
proof (intro conjI ballI)
  show "map row_id (db_surveys d2) = map row_id (db_surveys d)"
    using assms by (simp add: descends_def)
  show "db_responses d2 = db_responses d" using assms by (simp add: descends_def)
  show "set (db_segments d2) \<subseteq> set (db_segments d)" using assms by (auto simp: descends_def)
next
  fix s2 assume "s2 \<in> set (db_surveys d2)"
  with assms(2) obtain s1 where s1: "s1 \<in> set (db_surveys d1)" "row_id s1 = row_id s2"
      "row_segmentId s2 = row_segmentId s1 \<or> row_segmentId s2 = None"
      "row_id s2 \<notin> T2 \<longrightarrow> row_type s2 = row_type s1"
    unfolding descends_def by blast
  with assms(1) obtain s where s: "s \<in> set (db_surveys d)" "row_id s = row_id s1"
      "row_segmentId s1 = row_segmentId s \<or> row_segmentId s1 = None"
      "row_id s1 \<notin> T1 \<longrightarrow> row_type s1 = row_type s"
    unfolding descends_def by blast
  show "\<exists>s\<in>set (db_surveys d). row_id s = row_id s2 \<and>
          (row_segmentId s2 = row_segmentId s \<or> row_segmentId s2 = None) \<and>
          (row_id s2 \<notin> T1 \<union> T2 \<longrightarrow> row_type s2 = row_type s)"
    using s s1 by (intro bexI[of _ s]) auto
qed

lemma descends_mono: "descends T d d' \<Longrightarrow> T \<subseteq> T' \<Longrightarrow> descends T' d d'"
  unfolding descends_def by blast

lemma survey_update_descends:
  assumes upd: "survey_update d i change = Inr d'"
      and keeps: "\<And>s. row_id (change s) = row_id s \<and>
                    (row_segmentId (change s) = row_segmentId s \<or> row_segmentId (change s) = None)"
      and types: "\<And>s. i \<notin> T \<Longrightarrow> row_type (change s) = row_type s"
  shows "descends T d d'"
proof -
  let ?h = "\<lambda>s. if row_id s = i then change s else s"
  from upd have d': "d' = d \<lparr> db_surveys := map ?h (db_surveys d) \<rparr>"
    by (auto simp: survey_update_def split: if_splits)
  have h: "row_id (?h s) = row_id s \<and>
           (row_segmentId (?h s) = row_segmentId s \<or> row_segmentId (?h s) = None) \<and>
           (row_id (?h s) \<notin> T \<longrightarrow> row_type (?h s) = row_type s)" for s
    using keeps[of s] types[of s] by auto
  show ?thesis
    unfolding descends_def
  proof (intro conjI ballI)
    show "map row_id (db_surveys d') = map row_id (db_surveys d)"
      unfolding d' using h by (simp add: comp_def)
    show "db_responses d' = db_responses d" by (simp add: d')
    show "set (db_segments d') \<subseteq> set (db_segments d)" by (simp add: d')
  next
    fix s' assume "s' \<in> set (db_surveys d')"
    then obtain s where s: "s \<in> set (db_surveys d)" "s' = ?h s" by (auto simp: d')
    show "\<exists>s\<in>set (db_surveys d). row_id s = row_id s' \<and>
            (row_segmentId s' = row_segmentId s \<or> row_segmentId s' = None) \<and>
            (row_id s' \<notin> T \<longrightarrow> row_type s' = row_type s)"
      using s(1) h[of s] unfolding s(2) by (intro bexI[of _ s]) auto
  qed
qed

lemma survey_update_type_descends:
  "survey_update d i (\<lambda>s. s \<lparr> row_type := ty \<rparr>) = Inr d' \<Longrightarrow> descends {i} d d'"
  by (erule survey_update_descends) simp_all

lemma survey_update_disconnect_descends:
  "survey_update d i (\<lambda>s. s \<lparr> row_segmentId := None \<rparr>) = Inr d' \<Longrightarrow> descends {} d d'"
  by (erule survey_update_descends) simp_all

lemma clearReferences_row:
  "row_id (clearReferences P d s) = row_id s \<and> row_type (clearReferences P d s) = row_type s \<and>
   (row_segmentId (clearReferences P d s) = row_segmentId s \<or>
    row_segmentId (clearReferences P d s) = None)"
  by (simp add: clearReferences_def split: option.splits)

lemma segment_deleteMany_descends: "descends {} d (segment_deleteMany d P)"
  unfolding descends_def segment_deleteMany_def
  using clearReferences_row[of P d] by auto

lemma segment_delete_descends: "segment_delete d g = Inr d' \<Longrightarrow> descends {} d d'"
  using segment_deleteMany_descends by (auto simp: segment_delete_def split: if_splits)

lemma migrateSurvey_descends:
  assumes "migrateSurvey d (w, g) = Inr d'"
  shows "descends {row_id w} d d'"
proof (cases "hasPerson (response_findFirst d (row_id w))")
  case True
  with assms show ?thesis by (simp add: migrateSurvey_def survey_update_type_descends)
next
  case False
  with assms obtain d1 d2 where
    d1: "survey_update d (row_id w) (\<lambda>s. s \<lparr> row_type := ''website'' \<rparr>) = Inr d1" and
    d2: "(case g of None \<Rightarrow> Inr d1
          | Some seg \<Rightarrow> if segRow_isPrivate seg then segment_delete d1 (segRow_id seg)
                        else survey_update d1 (row_id w) (\<lambda>s. s \<lparr> row_segmentId := None \<rparr>)) = Inr d2" and
    d': "d' = segment_deleteMany d2 (\<lambda>seg. segRow_title seg = row_id w \<and> segRow_isPrivate seg)"
    by (auto simp: migrateSurvey_def bindE_Inr_iff)
  have a: "descends {row_id w} d d1" using d1 by (rule survey_update_type_descends)
  have b: "descends {} d1 d2"
    using d2 by (auto simp: descends_refl segment_delete_descends survey_update_disconnect_descends
        split: option.splits if_splits)
  have c: "descends {} d2 d'" unfolding d' by (rule segment_deleteMany_descends)
  from descends_trans[OF descends_trans[OF a b] c] show ?thesis by simp
qed

lemma migrateAll_descends:
  "migrateAll d ws = Inr d' \<Longrightarrow> descends (row_id ` fst ` set ws) d d'"
proof (induction ws arbitrary: d)
  case Nil
  then show ?case by (simp add: descends_refl)
next
  case (Cons x rest)
  obtain w g where x: "x = (w, g)" by (cases x)
  from Cons.prems obtain d1 where d1: "migrateSurvey d (w, g) = Inr d1" "migrateAll d1 rest = Inr d'"
    by (auto simp: x split: sum.splits)
  from descends_trans[OF migrateSurvey_descends[OF d1(1)] Cons.IH[OF d1(2)]]
  show ?case by (simp add: x)
qed

lemma descends_keeps_type:
  assumes "descends T d d'" "i \<notin> T"
      and "\<forall>s \<in> set (db_surveys d). row_id s = i \<longrightarrow> row_type s = ty"
  shows "\<forall>s' \<in> set (db_surveys d'). row_id s' = i \<longrightarrow> row_type s' = ty"
proof (intro ballI impI)
  fix s' assume s': "s' \<in> set (db_surveys d')" "row_id s' = i"
  with assms(1) obtain s where "s \<in> set (db_surveys d)" "row_id s = row_id s'"
      "row_id s' \<notin> T \<longrightarrow> row_type s' = row_type s"
    unfolding descends_def by blast
  with assms(2,3) s' show "row_type s' = ty" by auto
qed

lemma descends_keeps_disconnected:
  assumes "descends T d d'"
      and "\<forall>s \<in> set (db_surveys d). row_id s = i \<longrightarrow> row_segmentId s = None"
  shows "\<forall>s' \<in> set (db_surveys d'). row_id s' = i \<longrightarrow> row_segmentId s' = None"
proof (intro ballI impI)
  fix s' assume s': "s' \<in> set (db_surveys d')" "row_id s' = i"
  with assms(1) obtain s where "s \<in> set (db_surveys d)" "row_id s = row_id s'"
      "row_segmentId s' = row_segmentId s \<or> row_segmentId s' = None"
    unfolding descends_def by blast
  with assms(2) s' show "row_segmentId s' = None" by auto
qed

lemma descends_keeps_deleted:
  assumes "descends T d d'" and "\<forall>seg \<in> set (db_segments d). \<not> P seg"
  shows "\<forall>seg \<in> set (db_segments d'). \<not> P seg"
  using assms unfolding descends_def by blast

lemma descends_ids: "descends T d d' \<Longrightarrow> row_id ` set (db_surveys d') = row_id ` set (db_surveys d)"
proof -
  assume "descends T d d'"
  then have "map row_id (db_surveys d') = map row_id (db_surveys d)" by (simp add: descends_def)
  then have "set (map row_id (db_surveys d')) = set (map row_id (db_surveys d))" by simp
  then show ?thesis by simp
qed

lemma response_findFirst_descends:
  "descends T d d' \<Longrightarrow> response_findFirst d' i = response_findFirst d i"
  by (simp add: descends_def response_findFirst_def)

lemma survey_update_sets:
  assumes upd: "survey_update d i change = Inr d'"
      and s': "s' \<in> set (db_surveys d')" "row_id s' = i"
  shows "\<exists>s. s' = change s"
proof -
  let ?h = "\<lambda>s. if row_id s = i then change s else s"
  from upd have "db_surveys d' = map ?h (db_surveys d)"
    by (auto simp: survey_update_def split: if_splits)
  with s'(1) have "s' \<in> ?h ` set (db_surveys d)" by simp
  then obtain s where s: "s' = ?h s" by (rule imageE)
  show ?thesis
  proof (cases "row_id s = i")
    case True
    with s show ?thesis by auto
  next
    case False
    with s s'(2) show ?thesis by simp
  qed
qed

lemma survey_update_type_post:
  assumes "survey_update d i (\<lambda>s. s \<lparr> row_type := ty \<rparr>) = Inr d'"
  shows "\<forall>s' \<in> set (db_surveys d'). row_id s' = i \<longrightarrow> row_type s' = ty"
proof (intro ballI impI)
  fix s' assume "s' \<in> set (db_surveys d')" "row_id s' = i"
  from survey_update_sets[OF assms this] obtain s where "s' = s \<lparr> row_type := ty \<rparr>" by blast
  then show "row_type s' = ty" by simp
qed

lemma survey_update_disconnect_post:
  assumes "survey_update d i (\<lambda>s. s \<lparr> row_segmentId := None \<rparr>) = Inr d'"
  shows "\<forall>s' \<in> set (db_surveys d'). row_id s' = i \<longrightarrow> row_segmentId s' = None"
proof (intro ballI impI)
  fix s' assume "s' \<in> set (db_surveys d')" "row_id s' = i"
  from survey_update_sets[OF assms this] obtain s where "s' = s \<lparr> row_segmentId := None \<rparr>" by blast
  then show "row_segmentId s' = None" by simp
qed

lemma segment_deleteMany_post: "\<forall>seg \<in> set (db_segments (segment_deleteMany d P)). \<not> P seg"
  by (simp add: segment_deleteMany_def)

lemma segment_delete_post:
  "segment_delete d g = Inr d' \<Longrightarrow> \<forall>seg \<in> set (db_segments d'). segRow_id seg \<noteq> g"
  by (auto simp: segment_delete_def segment_deleteMany_def split: if_splits)

lemma migrateSurvey_migrated:
  assumes "migrateSurvey d (w, g) = Inr d'"
  shows "migrated d d' w g"
proof (cases "hasPerson (response_findFirst d (row_id w))")
  case True
  with assms show ?thesis
    by (simp add: migrated_def migrateSurvey_def survey_update_type_post)
next
  case False
  with assms obtain d1 d2 where
    d1: "survey_update d (row_id w) (\<lambda>s. s \<lparr> row_type := ''website'' \<rparr>) = Inr d1" and
    d2: "(case g of None \<Rightarrow> Inr d1
          | Some seg \<Rightarrow> if segRow_isPrivate seg then segment_delete d1 (segRow_id seg)
                        else survey_update d1 (row_id w) (\<lambda>s. s \<lparr> row_segmentId := None \<rparr>)) = Inr d2" and
    d': "d' = segment_deleteMany d2 (\<lambda>seg. segRow_title seg = row_id w \<and> segRow_isPrivate seg)"
    by (auto simp: migrateSurvey_def bindE_Inr_iff)
  have b: "descends {} d1 d2"
    using d2 by (auto simp: descends_refl segment_delete_descends survey_update_disconnect_descends
        split: option.splits if_splits)
  have c: "descends {} d2 d'" unfolding d' by (rule segment_deleteMany_descends)
  have t1: "\<forall>s \<in> set (db_surveys d1). row_id s = row_id w \<longrightarrow> row_type s = ''website''"
    using d1 by (rule survey_update_type_post)
  have t: "\<forall>s \<in> set (db_surveys d'). row_id s = row_id w \<longrightarrow> row_type s = ''website''"
    using descends_keeps_type[OF c _ descends_keeps_type[OF b _ t1]] by simp
  have g: "case g of
           None \<Rightarrow> True
         | Some seg \<Rightarrow>
             if segRow_isPrivate seg
             then \<forall>x \<in> set (db_segments d'). segRow_id x \<noteq> segRow_id seg
             else \<forall>s \<in> set (db_surveys d'). row_id s = row_id w \<longrightarrow> row_segmentId s = None"
  proof (cases g)
    case None
    then show ?thesis by simp
  next
    case (Some seg)
    show ?thesis
    proof (cases "segRow_isPrivate seg")
      case True
      with d2 Some have "segment_delete d1 (segRow_id seg) = Inr d2" by simp
      from descends_keeps_deleted[OF c segment_delete_post[OF this]]
      show ?thesis using Some True by simp
    next
      case False
      with d2 Some have "survey_update d1 (row_id w) (\<lambda>s. s \<lparr> row_segmentId := None \<rparr>) = Inr d2"
        by simp
      from descends_keeps_disconnected[OF c survey_update_disconnect_post[OF this]]
      show ?thesis using Some False by simp
    qed
  qed
  have m: "\<forall>x \<in> set (db_segments d'). \<not> (segRow_title x = row_id w \<and> segRow_isPrivate x)"
    unfolding d' by (rule segment_deleteMany_post)
  from False t g m show ?thesis by (simp add: migrated_def)
qed

lemma migrated_descends:
  assumes m: "migrated d d1 w g" and later: "descends T d1 d'" and untouched: "row_id w \<notin> T"
  shows "migrated d d' w g"
proof (cases "hasPerson (response_findFirst d (row_id w))")
  case True
  with m have "\<forall>s \<in> set (db_surveys d1). row_id s = row_id w \<longrightarrow> row_type s = ''app''"
    by (simp add: migrated_def)
  from descends_keeps_type[OF later untouched this] True show ?thesis by (simp add: migrated_def)
next
  case False
  with m have t: "\<forall>s \<in> set (db_surveys d1). row_id s = row_id w \<longrightarrow> row_type s = ''website''"
    and del: "\<forall>x \<in> set (db_segments d1). \<not> (segRow_title x = row_id w \<and> segRow_isPrivate x)"
    and g: "case g of
           None \<Rightarrow> True
         | Some seg \<Rightarrow>
             if segRow_isPrivate seg
             then \<forall>x \<in> set (db_segments d1). segRow_id x \<noteq> segRow_id seg
             else \<forall>s \<in> set (db_surveys d1). row_id s = row_id w \<longrightarrow> row_segmentId s = None"
    by (simp_all add: migrated_def)
  have g': "case g of
           None \<Rightarrow> True
         | Some seg \<Rightarrow>
             if segRow_isPrivate seg
             then \<forall>x \<in> set (db_segments d'). segRow_id x \<noteq> segRow_id seg
             else \<forall>s \<in> set (db_surveys d'). row_id s = row_id w \<longrightarrow> row_segmentId s = None"
  proof (cases g)
    case None
    then show ?thesis by simp
  next
    case (Some seg)
    show ?thesis
    proof (cases "segRow_isPrivate seg")
      case True
      with g Some have "\<forall>x \<in> set (db_segments d1). \<not> (segRow_id x = segRow_id seg)" by simp
      from descends_keeps_deleted[OF later this] show ?thesis using Some True by simp
    next
      case False
      with g Some have "\<forall>s \<in> set (db_surveys d1). row_id s = row_id w \<longrightarrow> row_segmentId s = None"
        by simp
      from descends_keeps_disconnected[OF later this] show ?thesis using Some False by simp
    qed
  qed
  from False descends_keeps_type[OF later untouched t] descends_keeps_deleted[OF later del] g'
  show ?thesis by (simp add: migrated_def)
qed

lemma migrated_cong:
  "db_responses d0 = db_responses d \<Longrightarrow> migrated d d' w g \<Longrightarrow> migrated d0 d' w g"
  by (simp add: migrated_def response_findFirst_def)

lemma migrateAll_migrated:
  assumes "migrateAll d ws = Inr d'" "distinct (map (row_id \<circ> fst) ws)" "(w, g) \<in> set ws"
  shows "migrated d d' w g"
  using assms
proof (induction ws arbitrary: d)
  case Nil
  then show ?case by simp
next
  case (Cons x rest)
  obtain w0 g0 where x: "x = (w0, g0)" by (cases x)
  from Cons.prems(1) obtain d1 where
    d1: "migrateSurvey d (w0, g0) = Inr d1" "migrateAll d1 rest = Inr d'"
    by (auto simp: x split: sum.splits)
  show ?case
  proof (cases "(w, g) = x")
    case True
    then have wg: "w = w0" "g = g0" by (simp_all add: x)
    have "row_id w \<notin> row_id ` fst ` set rest"
      using Cons.prems(2) by (auto simp: x wg)
    from migrated_descends[OF migrateSurvey_migrated[OF d1(1)] migrateAll_descends[OF d1(2)]]
      this show ?thesis by (simp add: wg)
  next
    case False
    with Cons.prems(3) have "(w, g) \<in> set rest" by simp
    from Cons.IH[OF d1(2) _ this] Cons.prems(2) have "migrated d1 d' w g" by simp
    moreover have "db_responses d = db_responses d1"
      using migrateSurvey_descends[OF d1(1)] by (simp add: descends_def)
    ultimately show ?thesis by (rule migrated_cong[rotated])
  qed
qed

lemma distinct_findMany_web:
  "distinct (map row_id (db_surveys db)) \<Longrightarrow> distinct (map (row_id \<circ> fst) (survey_findMany_web db))"
  by (simp add: survey_findMany_web_def comp_def distinct_map_filter)

lemma migration_effect:
  assumes "main db = Inr db'" "distinct (map row_id (db_surveys db))"
      and "(w, g) \<in> set (survey_findMany_web db)"
  shows "row_id w \<in> row_id ` set (db_surveys db') \<and> migrated db db' w g"
proof
  have "descends (row_id ` fst ` set (survey_findMany_web db)) db db'"
    using assms(1) unfolding main_def by (rule migrateAll_descends)
  then have "row_id ` set (db_surveys db') = row_id ` set (db_surveys db)" by (rule descends_ids)
  moreover have "w \<in> set (db_surveys db)" using assms(3) by (auto simp: survey_findMany_web_def)
  ultimately show "row_id w \<in> row_id ` set (db_surveys db')" by blast
  show "migrated db db' w g"
    using assms(1) distinct_findMany_web[OF assms(2)] assms(3)
    unfolding main_def by (rule migrateAll_migrated)
qed


lemma survey_update_commits:
  "i \<in> row_id ` set (db_surveys d) \<Longrightarrow> \<exists>d'. survey_update d i change = Inr d'"
  by (auto simp: survey_update_def)

lemma segment_delete_commits:
  "seg \<in> set (db_segments d) \<Longrightarrow> \<exists>d'. segment_delete d (segRow_id seg) = Inr d'"
  by (auto simp: segment_delete_def)

lemma survey_update_segments:
  "survey_update d i change = Inr d' \<Longrightarrow> db_segments d' = db_segments d"
  by (auto simp: survey_update_def split: if_splits)

lemma migrateSurvey_commits:
  assumes row: "row_id w \<in> row_id ` set (db_surveys d)"
      and present: "\<And>seg. g = Some seg \<Longrightarrow> segRow_isPrivate seg \<Longrightarrow> seg \<in> set (db_segments d)"
  shows "\<exists>d'. migrateSurvey d (w, g) = Inr d'"
proof (cases "hasPerson (response_findFirst d (row_id w))")
  case True
  with survey_update_commits[OF row] show ?thesis by (simp add: migrateSurvey_def)
next
  case False
  from survey_update_commits[OF row] obtain d1 where
    d1: "survey_update d (row_id w) (\<lambda>s. s \<lparr> row_type := ''website'' \<rparr>) = Inr d1" by blast
  have segs: "db_segments d1 = db_segments d" using d1 by (rule survey_update_segments)
  have row1: "row_id w \<in> row_id ` set (db_surveys d1)"
    using descends_ids[OF survey_update_type_descends[OF d1]] row by simp
  have "\<exists>d2. (case g of None \<Rightarrow> Inr d1
          | Some seg \<Rightarrow> if segRow_isPrivate seg then segment_delete d1 (segRow_id seg)
                        else survey_update d1 (row_id w) (\<lambda>s. s \<lparr> row_segmentId := None \<rparr>)) = Inr d2"
  proof (cases g)
    case None
    then show ?thesis by simp
  next
    case (Some seg)
    show ?thesis
    proof (cases "segRow_isPrivate seg")
      case True
      from present[OF Some True] segs have "seg \<in> set (db_segments d1)" by simp
      from segment_delete_commits[OF this] Some True show ?thesis by simp
    next
      case False
      with survey_update_commits[OF row1] Some show ?thesis by simp
    qed
  qed
  then obtain d2 where "(case g of None \<Rightarrow> Inr d1
          | Some seg \<Rightarrow> if segRow_isPrivate seg then segment_delete d1 (segRow_id seg)
                        else survey_update d1 (row_id w) (\<lambda>s. s \<lparr> row_segmentId := None \<rparr>)) = Inr d2"
    by blast
  with False d1 show ?thesis by (simp add: migrateSurvey_def bindE_def)
qed

lemma migrateSurvey_keeps_segment:
  assumes step: "migrateSurvey d (w, g) = Inr d'"
      and seg: "seg \<in> set (db_segments d)"
      and other: "\<And>seg0. g = Some seg0 \<Longrightarrow> segRow_id seg0 \<noteq> segRow_id seg"
      and title: "\<not> (segRow_title seg = row_id w \<and> segRow_isPrivate seg)"
  shows "seg \<in> set (db_segments d')"
proof (cases "hasPerson (response_findFirst d (row_id w))")
  case True
  with step have "survey_update d (row_id w) (\<lambda>s. s \<lparr> row_type := ''app'' \<rparr>) = Inr d'"
    by (simp add: migrateSurvey_def)
  from survey_update_segments[OF this] seg show ?thesis by simp
next
  case False
  with step obtain d1 d2 where
    d1: "survey_update d (row_id w) (\<lambda>s. s \<lparr> row_type := ''website'' \<rparr>) = Inr d1" and
    d2: "(case g of None \<Rightarrow> Inr d1
          | Some seg \<Rightarrow> if segRow_isPrivate seg then segment_delete d1 (segRow_id seg)
                        else survey_update d1 (row_id w) (\<lambda>s. s \<lparr> row_segmentId := None \<rparr>)) = Inr d2" and
    d': "d' = segment_deleteMany d2 (\<lambda>seg. segRow_title seg = row_id w \<and> segRow_isPrivate seg)"
    by (auto simp: migrateSurvey_def bindE_Inr_iff)
  have s1: "seg \<in> set (db_segments d1)" using survey_update_segments[OF d1] seg by simp
  have s2: "seg \<in> set (db_segments d2)"
  proof (cases g)
    case None
    with d2 s1 show ?thesis by simp
  next
    case (Some seg0)
    show ?thesis
    proof (cases "segRow_isPrivate seg0")
      case True
      with d2 Some have "segment_delete d1 (segRow_id seg0) = Inr d2" by simp
      then have "db_segments d2 = filter (\<lambda>x. segRow_id x \<noteq> segRow_id seg0) (db_segments d1)"
        by (auto simp: segment_delete_def segment_deleteMany_def split: if_splits)
      with s1 other[OF Some] show ?thesis by simp
    next
      case False
      with d2 Some have "survey_update d1 (row_id w) (\<lambda>s. s \<lparr> row_segmentId := None \<rparr>) = Inr d2"
        by simp
      from survey_update_segments[OF this] s1 show ?thesis by simp
    qed
  qed
  show ?thesis unfolding d' using s2 title by (simp add: segment_deleteMany_def)
qed

lemma migrateAll_commits:
  assumes "\<forall>w g. (w, g) \<in> set ws \<longrightarrow> row_id w \<in> row_id ` set (db_surveys d)"
      and "\<forall>w seg. (w, Some seg) \<in> set ws \<and> segRow_isPrivate seg \<longrightarrow> seg \<in> set (db_segments d)"
      and "\<forall>w1 g1 w2 seg. (w1, g1) \<in> set ws \<and> (w2, Some seg) \<in> set ws \<and>
             row_id w1 \<noteq> row_id w2 \<and> segRow_isPrivate seg \<longrightarrow>
               (\<forall>seg1. g1 = Some seg1 \<longrightarrow> segRow_id seg1 \<noteq> segRow_id seg) \<and>
               segRow_title seg \<noteq> row_id w1"
      and "distinct (map (row_id \<circ> fst) ws)"
  shows "\<exists>d'. migrateAll d ws = Inr d'"
  using assms
proof (induction ws arbitrary: d)
  case Nil
  then show ?case by simp
next
  case (Cons x rest)
  obtain w0 g0 where x: "x = (w0, g0)" by (cases x)
  have head: "(w0, g0) \<in> set (x # rest)" by (simp add: x)
  have row0: "row_id w0 \<in> row_id ` set (db_surveys d)"
    using Cons.prems(1) head by blast
  have seg0: "seg \<in> set (db_segments d)" if "g0 = Some seg" "segRow_isPrivate seg" for seg
    using Cons.prems(2) head that by blast
  from migrateSurvey_commits[of w0 d g0, OF row0 seg0]
  obtain d1 where d1: "migrateSurvey d (w0, g0) = Inr d1" by blast
  have ids: "row_id ` set (db_surveys d1) = row_id ` set (db_surveys d)"
    using migrateSurvey_descends[OF d1] by (rule descends_ids)
  have a: "\<forall>w g. (w, g) \<in> set rest \<longrightarrow> row_id w \<in> row_id ` set (db_surveys d1)"
  proof (intro allI impI)
    fix w g assume "(w, g) \<in> set rest"
    then have "(w, g) \<in> set (x # rest)" by simp
    with Cons.prems(1) have "row_id w \<in> row_id ` set (db_surveys d)" by blast
    then show "row_id w \<in> row_id ` set (db_surveys d1)" by (simp only: ids)
  qed
  have b: "\<forall>w seg. (w, Some seg) \<in> set rest \<and> segRow_isPrivate seg \<longrightarrow> seg \<in> set (db_segments d1)"
  proof (intro allI impI, elim conjE)
    fix w seg assume in_rest: "(w, Some seg) \<in> set rest" and priv: "segRow_isPrivate seg"
    have "row_id w \<in> set (map (row_id \<circ> fst) rest)"
      using in_rest by (force simp: image_iff)
    moreover have "row_id w0 \<notin> set (map (row_id \<circ> fst) rest)"
      using Cons.prems(4) by (simp add: x comp_def)
    ultimately have ne: "row_id w0 \<noteq> row_id w" by metis
    have in_all: "(w, Some seg) \<in> set (x # rest)" using in_rest by simp
    have here: "seg \<in> set (db_segments d)" using Cons.prems(2) in_all priv by blast
    have apart: "(\<forall>seg1. g0 = Some seg1 \<longrightarrow> segRow_id seg1 \<noteq> segRow_id seg) \<and>
               segRow_title seg \<noteq> row_id w0"
      using Cons.prems(3) head in_all ne priv by blast
    show "seg \<in> set (db_segments d1)"
    proof (rule migrateSurvey_keeps_segment[OF d1 here])
      show "segRow_id seg0 \<noteq> segRow_id seg" if "g0 = Some seg0" for seg0
        using apart that by blast
      show "\<not> (segRow_title seg = row_id w0 \<and> segRow_isPrivate seg)"
        using apart by blast
    qed
  qed
  have c: "\<forall>w1 g1 w2 seg. (w1, g1) \<in> set rest \<and> (w2, Some seg) \<in> set rest \<and>
             row_id w1 \<noteq> row_id w2 \<and> segRow_isPrivate seg \<longrightarrow>
               (\<forall>seg1. g1 = Some seg1 \<longrightarrow> segRow_id seg1 \<noteq> segRow_id seg) \<and>
               segRow_title seg \<noteq> row_id w1"
  proof (intro allI impI, elim conjE)
    fix w1 g1 w2 seg
    assume "(w1, g1) \<in> set rest" "(w2, Some seg) \<in> set rest" "row_id w1 \<noteq> row_id w2"
      "segRow_isPrivate seg"
    then have "(w1, g1) \<in> set (x # rest) \<and> (w2, Some seg) \<in> set (x # rest) \<and>
             row_id w1 \<noteq> row_id w2 \<and> segRow_isPrivate seg" by simp
    with Cons.prems(3) show "(\<forall>seg1. g1 = Some seg1 \<longrightarrow> segRow_id seg1 \<noteq> segRow_id seg) \<and>
               segRow_title seg \<noteq> row_id w1" by blast
  qed
  have e: "distinct (map (row_id \<circ> fst) rest)" using Cons.prems(4) by (simp add: comp_def)
  from Cons.IH[OF a b c e] obtain d' where "migrateAll d1 rest = Inr d'" by blast
  with d1 show ?case by (simp add: x)
qed

lemma findMany_web_row:
  assumes "(w, g) \<in> set (survey_findMany_web db)"
  shows "w \<in> set (db_surveys db) \<and> row_type w = ''web'' \<and>
         (\<forall>seg. g = Some seg \<longrightarrow> seg \<in> set (db_segments db) \<and> row_segmentId w = Some (segRow_id seg))"
proof -
  from assms have w: "w \<in> set (db_surveys db)" "row_type w = ''web''"
    and g: "g = (case row_segmentId w of None \<Rightarrow> None
                 | Some i \<Rightarrow> find (\<lambda>seg. segRow_id seg = i) (db_segments db))"
    by (auto simp: survey_findMany_web_def)
  have "seg \<in> set (db_segments db) \<and> row_segmentId w = Some (segRow_id seg)" if "g = Some seg" for seg
  proof (cases "row_segmentId w")
    case None
    with g that show ?thesis by simp
  next
    case (Some i)
    with g that have f: "find (\<lambda>seg. segRow_id seg = i) (db_segments db) = Some seg" by simp
    then obtain k where "k < length (db_segments db)" "segRow_id (db_segments db ! k) = i"
        "seg = db_segments db ! k"
      unfolding find_Some_iff by blast
    with Some show ?thesis by auto
  qed
  with w show ?thesis by blast
qed

lemma main_commits:
  assumes "distinct (map row_id (db_surveys db))" "privateSegmentsOwned db"
  shows "\<exists>db'. main db = Inr db'"
  unfolding main_def
proof (rule migrateAll_commits)
  show "\<forall>w g. (w, g) \<in> set (survey_findMany_web db) \<longrightarrow> row_id w \<in> row_id ` set (db_surveys db)"
  proof (intro allI impI)
    fix w g assume "(w, g) \<in> set (survey_findMany_web db)"
    from findMany_web_row[OF this] show "row_id w \<in> row_id ` set (db_surveys db)" by blast
  qed
  show "\<forall>w seg. (w, Some seg) \<in> set (survey_findMany_web db) \<and> segRow_isPrivate seg \<longrightarrow>
          seg \<in> set (db_segments db)"
  proof (intro allI impI, elim conjE)
    fix w seg assume "(w, Some seg) \<in> set (survey_findMany_web db)"
    from findMany_web_row[OF this] show "seg \<in> set (db_segments db)" by blast
  qed
  show "distinct (map (row_id \<circ> fst) (survey_findMany_web db))"
    using assms(1) by (rule distinct_findMany_web)
  show "\<forall>w1 g1 w2 seg. (w1, g1) \<in> set (survey_findMany_web db) \<and>
             (w2, Some seg) \<in> set (survey_findMany_web db) \<and>
             row_id w1 \<noteq> row_id w2 \<and> segRow_isPrivate seg \<longrightarrow>
               (\<forall>seg1. g1 = Some seg1 \<longrightarrow> segRow_id seg1 \<noteq> segRow_id seg) \<and>
               segRow_title seg \<noteq> row_id w1"
  proof (intro allI impI, elim conjE)
    fix w1 g1 w2 seg
    assume 1: "(w1, g1) \<in> set (survey_findMany_web db)"
       and 2: "(w2, Some seg) \<in> set (survey_findMany_web db)"
       and ne: "row_id w1 \<noteq> row_id w2" and priv: "segRow_isPrivate seg"
    from findMany_web_row[OF 1] have w1: "w1 \<in> set (db_surveys db)" "row_type w1 = ''web''"
      and g1: "\<And>seg1. g1 = Some seg1 \<Longrightarrow> row_segmentId w1 = Some (segRow_id seg1)" by blast+
    from findMany_web_row[OF 2] have w2: "w2 \<in> set (db_surveys db)" "row_type w2 = ''web''"
      "seg \<in> set (db_segments db)" "row_segmentId w2 = Some (segRow_id seg)" by blast+
    from assms(2) w1 w2 ne priv
    have "row_segmentId w1 \<noteq> Some (segRow_id seg) \<and> segRow_title seg \<noteq> row_id w1"
      unfolding privateSegmentsOwned_def by blast
    with g1 show "(\<forall>seg1. g1 = Some seg1 \<longrightarrow> segRow_id seg1 \<noteq> segRow_id seg) \<and>
               segRow_title seg \<noteq> row_id w1"
      by auto
  qed
qed


lemma newest_latest:
  "newest rs = Some r \<Longrightarrow> r \<in> set rs \<and> (\<forall>r' \<in> set rs. response_createdAt r' \<le> response_createdAt r)"
proof (induction rs arbitrary: r)
  case Nil
  then show ?case by simp
next
  case (Cons a rs)
  show ?case
  proof (cases "newest rs")
    case None
    then have "rs = []" by (cases rs) (auto split: option.splits if_splits)
    with Cons.prems show ?thesis by simp
  next
    case (Some r')
    from Cons.IH[OF Some] Cons.prems Some show ?thesis
      by (auto split: if_splits)
  qed
qed

lemma newest_None: "newest rs = None \<longleftrightarrow> rs = []"
  by (cases rs) (auto split: option.splits)

lemma response_findFirst_latest:
  "response_findFirst db i = Some r \<Longrightarrow>
     r \<in> set (db_responses db) \<and> response_surveyId r = i \<and>
     (\<forall>r' \<in> set (db_responses db). response_surveyId r' = i \<longrightarrow>
        response_createdAt r' \<le> response_createdAt r)"
  unfolding response_findFirst_def by (drule newest_latest) auto

lemma response_findFirst_None:
  "response_findFirst db i = None \<longleftrightarrow> (\<forall>r \<in> set (db_responses db). response_surveyId r \<noteq> i)"
  by (simp add: response_findFirst_def newest_None filter_empty_conv)

text \<open>
  C7.  Survey ids are unique.  For every survey of type "web", with the segment the
  query includes for it: if the migration commits, then the survey is still there; if
  its latest response has a person id its type is "app"; otherwise its type is
  "website", its segment is gone from the store when private and the survey is
  disconnected when the segment is shared, and no private segment titled with the
  survey's id is left.  And the migration does commit when private segments belong to
  one survey.
\<close>

theorem migration_reclassifies_web_surveys:
  assumes ids: "distinct (map row_id (db_surveys db))"
      and web: "(w, g) \<in> set (survey_findMany_web db)"
  shows "(privateSegmentsOwned db \<longrightarrow> (\<exists>db'. main db = Inr db')) \<and>
         (\<forall>db'. main db = Inr db' \<longrightarrow>
            row_id w \<in> row_id ` set (db_surveys db') \<and>
            (hasPerson (response_findFirst db (row_id w)) \<longrightarrow>
               (\<forall>s \<in> set (db_surveys db'). row_id s = row_id w \<longrightarrow> row_type s = ''app'')) \<and>
            (\<not> hasPerson (response_findFirst db (row_id w)) \<longrightarrow>
               (\<forall>s \<in> set (db_surveys db'). row_id s = row_id w \<longrightarrow> row_type s = ''website'') \<and>
               (\<forall>seg. g = Some seg \<and> segRow_isPrivate seg \<longrightarrow>
                  (\<forall>x \<in> set (db_segments db'). segRow_id x \<noteq> segRow_id seg)) \<and>
               (\<forall>seg. g = Some seg \<and> \<not> segRow_isPrivate seg \<longrightarrow>
                  (\<forall>s \<in> set (db_surveys db'). row_id s = row_id w \<longrightarrow> row_segmentId s = None)) \<and>
               (\<forall>x \<in> set (db_segments db').
                  \<not> (segRow_title x = row_id w \<and> segRow_isPrivate x))))"
proof (intro conjI impI allI)
  assume "privateSegmentsOwned db"
  with ids show "\<exists>db'. main db = Inr db'" by (rule main_commits)
next
  fix db' assume m: "main db = Inr db'"
  from migration_effect[OF m ids web]
  show "row_id w \<in> row_id ` set (db_surveys db')" by blast
next
  fix db' assume m: "main db = Inr db'" and p: "hasPerson (response_findFirst db (row_id w))"
  from migration_effect[OF m ids web] p
  show "\<forall>s \<in> set (db_surveys db'). row_id s = row_id w \<longrightarrow> row_type s = ''app''"
    by (simp add: migrated_def)
next
  fix db' assume m: "main db = Inr db'" and p: "\<not> hasPerson (response_findFirst db (row_id w))"
  from migration_effect[OF m ids web] p
  have t: "\<forall>s \<in> set (db_surveys db'). row_id s = row_id w \<longrightarrow> row_type s = ''website''"
    and g: "case g of
           None \<Rightarrow> True
         | Some seg \<Rightarrow>
             if segRow_isPrivate seg
             then \<forall>x \<in> set (db_segments db'). segRow_id x \<noteq> segRow_id seg
             else \<forall>s \<in> set (db_surveys db'). row_id s = row_id w \<longrightarrow> row_segmentId s = None"
    and o: "\<forall>x \<in> set (db_segments db'). \<not> (segRow_title x = row_id w \<and> segRow_isPrivate x)"
    by (simp_all add: migrated_def)
  show "\<forall>s \<in> set (db_surveys db'). row_id s = row_id w \<longrightarrow> row_type s = ''website''" by (rule t)
  show "\<forall>x \<in> set (db_segments db'). \<not> (segRow_title x = row_id w \<and> segRow_isPrivate x)" by (rule o)
  show "\<forall>x \<in> set (db_segments db'). segRow_id x \<noteq> segRow_id seg"
    if "g = Some seg \<and> segRow_isPrivate seg" for seg
    using g that by simp
  show "\<forall>s \<in> set (db_surveys db'). row_id s = row_id w \<longrightarrow> row_segmentId s = None"
    if "g = Some seg \<and> \<not> segRow_isPrivate seg" for seg
    using g that by simp
qed

lemma main_legacyDb: "main legacyDb = Inr migratedDb"
  by (simp add: main_def legacyDb_def migratedDb_def survey_findMany_web_def migrateSurvey_def
        response_findFirst_def hasPerson_def survey_update_def segment_delete_def
        segment_deleteMany_def clearReferences_def bindE_def)


theorem migration_reclassifies_web_surveys_witness:
  "distinct (map row_id (db_surveys legacyDb)) \<and>
   main legacyDb = Inr migratedDb \<and>
   hasPerson (response_findFirst legacyDb ''w1'') \<and>
   filter (\<lambda>s. row_id s = ''w1'') (db_surveys migratedDb)
     = [\<lparr> row_id = ''w1'', row_type = ''app'', row_segmentId = Some ''g1'' \<rparr>] \<and>
   filter (\<lambda>s. row_id s = ''w2'') (db_surveys migratedDb)
     = [\<lparr> row_id = ''w2'', row_type = ''website'', row_segmentId = None \<rparr>] \<and>
   filter (\<lambda>x. segRow_id x = ''g2'') (db_segments migratedDb) = [] \<and>
   filter (\<lambda>s. row_id s = ''w3'') (db_surveys migratedDb)
     = [\<lparr> row_id = ''w3'', row_type = ''website'', row_segmentId = None \<rparr>] \<and>
   filter (\<lambda>x. segRow_title x = ''w3'' \<and> segRow_isPrivate x) (db_segments migratedDb) = []"
proof -
  have ids: "distinct (map row_id (db_surveys legacyDb))"
    by (simp add: legacyDb_def)
  have owned: "privateSegmentsOwned legacyDb"
    by (simp add: privateSegmentsOwned_def legacyDb_def)
  have w1: "(\<lparr> row_id = ''w1'', row_type = ''web'', row_segmentId = Some ''g1'' \<rparr>,
             Some \<lparr> segRow_id = ''g1'', segRow_title = ''w1'', segRow_isPrivate = True \<rparr>)
            \<in> set (survey_findMany_web legacyDb)"
    by (simp add: survey_findMany_web_def legacyDb_def)
  have p1: "hasPerson (response_findFirst legacyDb ''w1'')"
    by (simp add: hasPerson_def response_findFirst_def legacyDb_def)
  have w2: "(\<lparr> row_id = ''w2'', row_type = ''web'', row_segmentId = Some ''g2'' \<rparr>,
             Some \<lparr> segRow_id = ''g2'', segRow_title = ''w2'', segRow_isPrivate = True \<rparr>)
            \<in> set (survey_findMany_web legacyDb)"
    by (simp add: survey_findMany_web_def legacyDb_def)
  have p2: "\<not> hasPerson (response_findFirst legacyDb ''w2'')"
    by (simp add: hasPerson_def response_findFirst_def legacyDb_def)
  have p2': "\<not> hasPerson (response_findFirst legacyDb
             (row_id \<lparr> row_id = ''w2'', row_type = ''web'', row_segmentId = Some ''g2'' \<rparr>))"
    using p2 by simp
  note website =
    migration_reclassifies_web_surveys [OF ids w2, THEN conjunct2, THEN spec, of migratedDb,
      THEN mp, OF main_legacyDb, THEN conjunct2, THEN conjunct2, THEN mp, OF p2']
  have t2: "\<forall>x \<in> set (db_segments migratedDb). segRow_id x \<noteq> ''g2''"
    using website [THEN conjunct2, THEN conjunct1] by simp
  have commits: "\<exists>db'. main legacyDb = Inr db'"
    using migration_reclassifies_web_surveys [OF ids w1, THEN conjunct1] owned by (rule mp)
  have facts:
   "filter (\<lambda>s. row_id s = ''w1'') (db_surveys migratedDb)
     = [\<lparr> row_id = ''w1'', row_type = ''app'', row_segmentId = Some ''g1'' \<rparr>] \<and>
   filter (\<lambda>s. row_id s = ''w2'') (db_surveys migratedDb)
     = [\<lparr> row_id = ''w2'', row_type = ''website'', row_segmentId = None \<rparr>] \<and>
   filter (\<lambda>x. segRow_id x = ''g2'') (db_segments migratedDb) = [] \<and>
   filter (\<lambda>s. row_id s = ''w3'') (db_surveys migratedDb)
     = [\<lparr> row_id = ''w3'', row_type = ''website'', row_segmentId = None \<rparr>] \<and>
   filter (\<lambda>x. segRow_title x = ''w3'' \<and> segRow_isPrivate x) (db_segments migratedDb) = []"
    by (simp add: migratedDb_def)
  from ids main_legacyDb p1 facts commits t2 show ?thesis by blast
qed

end
